theory Spec2Isabelle
  imports Main "HOL-Library.List_Lexorder"
begin

section \<open>JavaScript strings\<close>

text \<open>
  A JavaScript string is a sequence of UTF-16 code units. A code unit is modelled by its
  number, so that \<open>length\<close> is the \<open>.length\<close> of the source and the whitespace class of
  the language (which reaches beyond Latin-1) can be written down in full.
\<close>

type_synonym jstring = "nat list"

definition js :: "string \<Rightarrow> jstring" where
  \<comment> \<open>An ASCII literal of the source as a sequence of code units.\<close>
  "js s = map of_char s"

definition is_ws :: "nat \<Rightarrow> bool" where
  \<comment> \<open>The class \<open>\\s\<close> of a regular expression, which is also what \<open>String.prototype.trim\<close>
      strips: WhiteSpace and LineTerminator of ECMAScript.\<close>
  "is_ws c \<longleftrightarrow>
     c = 9 \<or> c = 10 \<or> c = 11 \<or> c = 12 \<or> c = 13 \<or> c = 32 \<or> c = 160 \<or> c = 5760 \<or>
     (8192 \<le> c \<and> c \<le> 8202) \<or> c = 8232 \<or> c = 8233 \<or> c = 8239 \<or> c = 8287 \<or>
     c = 12288 \<or> c = 65279"

definition is_digit :: "nat \<Rightarrow> bool" where
  \<comment> \<open>\<open>\\d\<close>, that is \<open>[0-9]\<close>\<close>
  "is_digit c \<longleftrightarrow> 48 \<le> c \<and> c \<le> 57"

definition is_alpha :: "nat \<Rightarrow> bool" where
  \<comment> \<open>\<open>[A-Za-z]\<close>\<close>
  "is_alpha c \<longleftrightarrow> (65 \<le> c \<and> c \<le> 90) \<or> (97 \<le> c \<and> c \<le> 122)"

definition trim :: "jstring \<Rightarrow> jstring" where
  \<comment> \<open>\<open>String.prototype.trim\<close>\<close>
  "trim s = rev (dropWhile is_ws (rev (dropWhile is_ws s)))"

definition toLowerCase :: "jstring \<Rightarrow> jstring" where
  \<comment> \<open>\<open>String.prototype.toLowerCase\<close>: \<open>A\<close>..\<open>Z\<close> go to \<open>a\<close>..\<open>z\<close>, and U+212A KELVIN SIGN
      goes to \<open>k\<close>; these are the code units whose lower case is a Basic Latin letter
      other than themselves. Every other code unit is left as it is: where the language
      changes one (U+00C9, the two units it gives for U+0130, a surrogate pair), the result
      still has a code unit outside Basic Latin, so whether the lowered string is a given
      word of Basic Latin letters is decided as in the language.\<close>
  "toLowerCase s =
     map (\<lambda>c. if 65 \<le> c \<and> c \<le> 90 then c + 32 else if c = 8490 then 107 else c) s"

datatype js_value =
    Null
  | Undefined
  | Str jstring
  | NonString jstring
    \<comment> \<open>a value of any other type, carrying what \<open>String(input)\<close> gives for it\<close>

section \<open>utils/searchDetector.js\<close>

datatype search_type = ZIP_CODE | CITY | REGION | UNKNOWN

subsection \<open>PATTERNS\<close>

definition US_ZIP :: "jstring \<Rightarrow> bool" where
  \<comment> \<open>\<open>/^\\d{5}(-\\d{4})?$/\<close>\<close>
  "US_ZIP s \<longleftrightarrow>
     (length s = 5 \<and> list_all is_digit s) \<or>
     (length s = 10 \<and> list_all is_digit (take 5 s) \<and> s ! 5 = 45 \<and> list_all is_digit (drop 6 s))"

definition CANADIAN_POSTAL :: "jstring \<Rightarrow> bool" where
  \<comment> \<open>\<open>/^[A-Za-z]\\d[A-Za-z][ -]?\\d[A-Za-z]\\d$/\<close>\<close>
  "CANADIAN_POSTAL s \<longleftrightarrow>
     (case s of
        [a, b, c, d, e, f] \<Rightarrow>
          is_alpha a \<and> is_digit b \<and> is_alpha c \<and> is_digit d \<and> is_alpha e \<and> is_digit f
      | [a, b, c, x, d, e, f] \<Rightarrow>
          is_alpha a \<and> is_digit b \<and> is_alpha c \<and> (x = 32 \<or> x = 45) \<and>
          is_digit d \<and> is_alpha e \<and> is_digit f
      | _ \<Rightarrow> False)"

definition uk_inward :: "jstring \<Rightarrow> bool" where
  \<comment> \<open>the tail \<open>\\d[A-Za-z]{2}$\<close>\<close>
  "uk_inward s \<longleftrightarrow> (case s of [d, a, b] \<Rightarrow> is_digit d \<and> is_alpha a \<and> is_alpha b | _ \<Rightarrow> False)"

definition uk_space :: "jstring \<Rightarrow> bool" where
  \<comment> \<open>\<open>[ ]?\<close> followed by the tail\<close>
  "uk_space s \<longleftrightarrow> uk_inward s \<or> (case s of x # t \<Rightarrow> x = 32 \<and> uk_inward t | [] \<Rightarrow> False)"

definition uk_alnum :: "jstring \<Rightarrow> bool" where
  \<comment> \<open>\<open>[A-Za-z\\d]?\<close> followed by the rest\<close>
  "uk_alnum s \<longleftrightarrow>
     uk_space s \<or> (case s of x # t \<Rightarrow> (is_alpha x \<or> is_digit x) \<and> uk_space t | [] \<Rightarrow> False)"

definition uk_digit :: "jstring \<Rightarrow> bool" where
  \<comment> \<open>\<open>\\d\<close> followed by the rest\<close>
  "uk_digit s \<longleftrightarrow> (case s of x # t \<Rightarrow> is_digit x \<and> uk_alnum t | [] \<Rightarrow> False)"

definition UK_POSTCODE :: "jstring \<Rightarrow> bool" where
  \<comment> \<open>\<open>/^[A-Za-z]{1,2}\\d[A-Za-z\\d]?[ ]?\\d[A-Za-z]{2}$/\<close>\<close>
  "UK_POSTCODE s \<longleftrightarrow>
     (case s of
        a # t \<Rightarrow>
          is_alpha a \<and>
          (uk_digit t \<or> (case t of b # u \<Rightarrow> is_alpha b \<and> uk_digit u | [] \<Rightarrow> False))
      | [] \<Rightarrow> False)"

definition NUMERIC_POSTAL :: "jstring \<Rightarrow> bool" where
  \<comment> \<open>\<open>/^\\d{4,6}$/\<close>\<close>
  "NUMERIC_POSTAL s \<longleftrightarrow> 4 \<le> length s \<and> length s \<le> 6 \<and> list_all is_digit s"

subsection \<open>US_STATES and COUNTRIES\<close>

definition US_STATES :: "jstring list" where
  "US_STATES = map js
    [''alabama'', ''al'', ''alaska'', ''ak'', ''arizona'', ''az'', ''arkansas'', ''ar'',
     ''california'', ''ca'', ''colorado'', ''co'', ''connecticut'', ''ct'', ''delaware'', ''de'',
     ''florida'', ''fl'', ''georgia'', ''ga'', ''hawaii'', ''hi'', ''idaho'', ''id'',
     ''illinois'', ''il'', ''indiana'', ''in'', ''iowa'', ''ia'', ''kansas'', ''ks'',
     ''kentucky'', ''ky'', ''louisiana'', ''la'', ''maine'', ''me'', ''maryland'', ''md'',
     ''massachusetts'', ''ma'', ''michigan'', ''mi'', ''minnesota'', ''mn'', ''mississippi'', ''ms'',
     ''missouri'', ''mo'', ''montana'', ''mt'', ''nebraska'', ''ne'', ''nevada'', ''nv'',
     ''new hampshire'', ''nh'', ''new jersey'', ''nj'', ''new mexico'', ''nm'', ''new york'', ''ny'',
     ''north carolina'', ''nc'', ''north dakota'', ''nd'', ''ohio'', ''oh'', ''oklahoma'', ''ok'',
     ''oregon'', ''or'', ''pennsylvania'', ''pa'', ''rhode island'', ''ri'', ''south carolina'', ''sc'',
     ''south dakota'', ''sd'', ''tennessee'', ''tn'', ''texas'', ''tx'', ''utah'', ''ut'',
     ''vermont'', ''vt'', ''virginia'', ''va'', ''washington'', ''wa'', ''west virginia'', ''wv'',
     ''wisconsin'', ''wi'', ''wyoming'', ''wy'', ''district of columbia'', ''dc'']"

definition COUNTRIES :: "jstring list" where
  "COUNTRIES = map js
    [''united states'', ''usa'', ''us'', ''canada'', ''mexico'', ''united kingdom'', ''uk'',
     ''england'', ''scotland'', ''wales'', ''ireland'', ''france'', ''germany'', ''italy'',
     ''spain'', ''portugal'', ''netherlands'', ''belgium'', ''switzerland'', ''austria'',
     ''australia'', ''new zealand'', ''japan'', ''china'', ''india'', ''brazil'', ''argentina'',
     ''south africa'', ''egypt'', ''russia'', ''sweden'', ''norway'', ''denmark'', ''finland'',
     ''poland'', ''czech republic'', ''greece'', ''turkey'', ''south korea'', ''singapore'',
     ''thailand'', ''vietnam'', ''philippines'', ''indonesia'', ''malaysia'']"

subsection \<open>detectSearchType\<close>

definition isZipCode :: "jstring \<Rightarrow> bool" where
  "isZipCode input \<longleftrightarrow>
     US_ZIP input \<or> CANADIAN_POSTAL input \<or> UK_POSTCODE input \<or> NUMERIC_POSTAL input"

definition isRegion :: "jstring \<Rightarrow> bool" where
  "isRegion input =
     (let normalized = toLowerCase input
      in if normalized \<in> set US_STATES then True
         else if normalized \<in> set COUNTRIES then True
         else False)"

record detected =
  type :: search_type
  val :: jstring
    \<comment> \<open>the field \<open>value\<close> of the source\<close>

definition detectSearchType :: "js_value \<Rightarrow> detected" where
  "detectSearchType input =
     (case input of
        Null \<Rightarrow> \<lparr>type = UNKNOWN, val = []\<rparr>
      | Undefined \<Rightarrow> \<lparr>type = UNKNOWN, val = []\<rparr>
      | NonString shown \<Rightarrow> \<lparr>type = UNKNOWN, val = shown\<rparr>
      | Str s \<Rightarrow>
          (let trimmed = trim s
           in if trimmed = [] then \<lparr>type = UNKNOWN, val = []\<rparr>
              else if isZipCode trimmed then \<lparr>type = ZIP_CODE, val = trimmed\<rparr>
              else if isRegion trimmed then \<lparr>type = REGION, val = trimmed\<rparr>
              else \<lparr>type = CITY, val = trimmed\<rparr>))"

subsection \<open>sanitizeSearchInput\<close>

function strip_tags :: "jstring \<Rightarrow> jstring" where
  \<comment> \<open>\<open>.replace(/<[^>]*>/g, '')\<close>: a \<open><\<close> with a \<open>>\<close> somewhere after it is removed
      together with everything up to the first such \<open>>\<close>; the scan goes on behind it.\<close>
  "strip_tags [] = []"
| "strip_tags (c # cs) =
     (if c = 60 \<and> 62 \<in> set cs then strip_tags (tl (dropWhile (\<lambda>x. x \<noteq> 62) cs))
      else c # strip_tags cs)"
  by pat_completeness auto
termination
proof (relation "measure length")
  show "wf (measure length)" by simp
next
  fix c :: nat and cs :: "nat list"
  have "length (tl (dropWhile (\<lambda>x. x \<noteq> 62) cs)) \<le> length cs"
    using length_dropWhile_le [of "\<lambda>x. x \<noteq> 62" cs] by simp
  then show "(tl (dropWhile (\<lambda>x. x \<noteq> 62) cs), c # cs) \<in> measure length" by simp
next
  fix c :: nat and cs :: "nat list"
  show "(cs, c # cs) \<in> measure length" by simp
qed

definition injection_char :: "nat \<Rightarrow> bool" where
  \<comment> \<open>the class \<open>[<>'"`;\\\\]\<close>\<close>
  "injection_char c \<longleftrightarrow> c = 60 \<or> c = 62 \<or> c = 39 \<or> c = 34 \<or> c = 96 \<or> c = 59 \<or> c = 92"

function collapse_ws :: "jstring \<Rightarrow> jstring" where
  \<comment> \<open>\<open>.replace(/\\s+/g, ' ')\<close>: every maximal run of whitespace becomes one space.\<close>
  "collapse_ws [] = []"
| "collapse_ws (c # cs) =
     (if is_ws c then 32 # collapse_ws (dropWhile is_ws cs) else c # collapse_ws cs)"
  by pat_completeness auto
termination
proof (relation "measure length")
  show "wf (measure length)" by simp
next
  fix c :: nat and cs :: "nat list"
  show "(dropWhile is_ws cs, c # cs) \<in> measure length"
    using length_dropWhile_le [of is_ws cs] by simp
next
  fix c :: nat and cs :: "nat list"
  show "(cs, c # cs) \<in> measure length" by simp
qed

definition MAX_LENGTH :: nat where
  "MAX_LENGTH = 100"

definition sanitize_string :: "jstring \<Rightarrow> jstring" where
  \<comment> \<open>the body of \<open>sanitizeSearchInput\<close> once the input is a string\<close>
  "sanitize_string input =
     (let sanitized = trim (collapse_ws (filter (\<lambda>c. \<not> injection_char c) (strip_tags input)))
      in if length sanitized > MAX_LENGTH then trim (take MAX_LENGTH sanitized) else sanitized)"

definition sanitizeSearchInput :: "js_value \<Rightarrow> jstring" where
  "sanitizeSearchInput input =
     (case input of
        Null \<Rightarrow> []
      | Undefined \<Rightarrow> []
      | NonString shown \<Rightarrow> sanitize_string shown
      | Str s \<Rightarrow> sanitize_string s)"

subsection \<open>validateSearchInput\<close>

record validation =
  valid :: bool
  error :: "string option"

definition validateSearchInput :: "js_value \<Rightarrow> validation" where
  "validateSearchInput input =
     (case input of
        Null \<Rightarrow> \<lparr>valid = False, error = Some ''Search input is required''\<rparr>
      | Undefined \<Rightarrow> \<lparr>valid = False, error = Some ''Search input is required''\<rparr>
      | NonString shown \<Rightarrow> \<lparr>valid = False, error = Some ''Search input must be a string''\<rparr>
      | Str s \<Rightarrow>
          if s = [] then \<lparr>valid = False, error = Some ''Search input is required''\<rparr>
          else
            (let sanitized = sanitizeSearchInput (Str s)
             in if length sanitized = 0
                then \<lparr>valid = False, error = Some ''Search input is required''\<rparr>
                else if length sanitized < 2
                then \<lparr>valid = False,
                      error = Some ''Search input must be at least 2 characters''\<rparr>
                else \<lparr>valid = True, error = None\<rparr>))"

subsection \<open>Normal form of sanitized text\<close>

text \<open>
  Two predicates used to reason about \<open>sanitizeSearchInput\<close>: \<open>spaced\<close> holds of a string
  whose only whitespace is the single space, never twice in a row; \<open>normal\<close> adds that no
  stripped character occurs, that the ends are not whitespace and that the length is within
  the limit.
\<close>

fun spaced :: "jstring \<Rightarrow> bool" where
  "spaced [] = True"
| "spaced [c] = (is_ws c \<longrightarrow> c = 32)"
| "spaced (c # d # cs) = ((is_ws c \<longrightarrow> c = 32 \<and> \<not> is_ws d) \<and> spaced (d # cs))"

definition normal :: "jstring \<Rightarrow> bool" where
  "normal s \<longleftrightarrow>
     (\<forall>c \<in> set s. \<not> injection_char c) \<and> spaced s \<and>
     (s = [] \<or> (\<not> is_ws (hd s) \<and> \<not> is_ws (last s))) \<and> length s \<le> MAX_LENGTH"


section \<open>services/weatherApi.js\<close>

text \<open>
  JSON numbers are modelled as integers: the claims are about percentages, hours and
  millisecond counts, and the other numeric fields are only copied. A field that may be
  missing or \<open>null\<close> in the provider's answer has an option type.
\<close>

type_synonym number = int

subsection \<open>WeatherApiError\<close>

datatype error_type = network | not_found | api_error | validation | config

datatype js_error =
    WeatherApiError string error_type "js_error option"
    \<comment> \<open>message, type, originalError\<close>
  | TypeError string
  | OtherError string
    \<comment> \<open>any other thrown \<open>Error\<close>, with its message\<close>

fun includes_str :: "string \<Rightarrow> string \<Rightarrow> bool" where
  \<comment> \<open>\<open>String.prototype.includes\<close>\<close>
  "includes_str [] sub = (sub = [])"
| "includes_str (c # cs) sub = (take (length sub) (c # cs) = sub \<or> includes_str cs sub)"

subsection \<open>validateConfig\<close>

definition validateConfig :: "jstring option \<Rightarrow> js_error + unit" where
  \<comment> \<open>the argument is \<open>getApiKey()\<close>, \<open>None\<close> for an undefined environment variable\<close>
  "validateConfig apiKey =
     (case apiKey of
        None \<Rightarrow>
          Inl (WeatherApiError ''Unable to connect to weather service. Please check configuration.''
                 config None)
      | Some k \<Rightarrow>
          if k = [] \<or> k = js ''your_api_key_here'' \<or> trim k = []
          then Inl (WeatherApiError
                      ''Unable to connect to weather service. Please check configuration.''
                      config None)
          else Inr ())"

subsection \<open>The provider's answer\<close>

record raw_condition =
  text' :: jstring
  icon :: jstring

record raw_location =
  name :: jstring
  region :: "jstring option"
  country :: "jstring option"
  tz_id :: jstring
  localtime :: jstring

record raw_current =
  temp_f :: number
  feelslike_f :: number
  condition :: raw_condition
  humidity :: number
  wind_mph :: number
  wind_dir :: "jstring option"
  last_updated :: jstring

record raw_hour =
  time :: jstring
  temp_f :: number
  condition :: raw_condition
  chance_of_rain :: "number option"
  chance_of_snow :: "number option"
  wind_mph :: number
  humidity :: number

record raw_day_summary =
  maxtemp_f :: number
  mintemp_f :: number
  condition :: raw_condition
  daily_chance_of_rain :: "number option"
  daily_chance_of_snow :: "number option"

record raw_day =
  date :: jstring
  day :: raw_day_summary
  hour :: "raw_hour list option"
    \<comment> \<open>\<open>None\<close>: missing, or not an array\<close>

record raw_forecast =
  forecastday :: "raw_day list option"

record raw_data =
  location :: "raw_location option"
  current :: "raw_current option"
  forecast :: "raw_forecast option"

subsection \<open>fetchWeatherData\<close>

record response =
  status :: nat
  json :: "js_error + raw_data option"
    \<comment> \<open>what \<open>response.json()\<close> settles with: a rejection, or the parsed value
        (\<open>None\<close> for a parsed value that is falsy)\<close>

definition ok :: "response \<Rightarrow> bool" where
  \<comment> \<open>\<open>response.ok\<close> of the Fetch standard: the status is in the range 200 to 299\<close>
  "ok r \<longleftrightarrow> 200 \<le> status r \<and> status r \<le> 299"

datatype fetch_result =
    Rejected js_error
  | Resolved response

definition valid_location :: "js_value \<Rightarrow> bool" where
  \<comment> \<open>the negation of
      \<open>!location || typeof location !== 'string' || location.trim() === ''\<close>\<close>
  "valid_location loc \<longleftrightarrow> (case loc of Str s \<Rightarrow> s \<noteq> [] \<and> trim s \<noteq> [] | _ \<Rightarrow> False)"

definition http_error :: "nat \<Rightarrow> js_error" where
  \<comment> \<open>the error thrown for a response that is not \<open>ok\<close>\<close>
  "http_error st =
     (if st = 400 \<or> st = 404
      then WeatherApiError
             ''We couldn't find that location. Please try a different city, zip code, or region.''
             not_found None
      else if st = 401 \<or> st = 403
      then WeatherApiError ''Unable to connect to weather service. Please check configuration.''
             config None
      else if st \<ge> 500
      then WeatherApiError ''Weather service is temporarily unavailable. Please try again later.''
             api_error None
      else WeatherApiError ''Something went wrong. Please try again.'' api_error None)"

definition try_body :: "fetch_result \<Rightarrow> js_error + raw_data" where
  \<comment> \<open>the \<open>try\<close> block: \<open>Inl\<close> is what it throws\<close>
  "try_body net =
     (case net of
        Rejected e \<Rightarrow> Inl e
      | Resolved r \<Rightarrow>
          if \<not> ok r then Inl (http_error (status r))
          else
            (case json r of
               Inl jsonError \<Rightarrow>
                 Inl (WeatherApiError ''Invalid response from weather service.'' validation
                        (Some jsonError))
             | Inr None \<Rightarrow>
                 Inl (WeatherApiError ''Invalid response from weather service.'' validation None)
             | Inr (Some data) \<Rightarrow>
                 if location data = None \<or> current data = None \<or> forecast data = None
                 then Inl (WeatherApiError ''Invalid response from weather service.'' validation
                             None)
                 else Inr data))"

definition catch_block :: "js_error \<Rightarrow> js_error" where
  \<comment> \<open>the \<open>catch\<close> block: what it throws for what it caught\<close>
  "catch_block err =
     (case err of
        WeatherApiError m t orig \<Rightarrow> err
      | TypeError m \<Rightarrow>
          WeatherApiError
            ''Unable to fetch weather data. Please check your internet connection and try again.''
            network (Some err)
      | OtherError m \<Rightarrow>
          if includes_str m ''fetch''
          then WeatherApiError
                 ''Unable to fetch weather data. Please check your internet connection and try again.''
                 network (Some err)
          else WeatherApiError ''Something went wrong. Please try again.'' api_error (Some err))"

definition fetchWeatherData :: "jstring option \<Rightarrow> js_value \<Rightarrow> fetch_result \<Rightarrow> js_error + raw_data" where
  \<comment> \<open>the API key of the environment, the location, and what \<open>fetch(url)\<close> settles with\<close>
  "fetchWeatherData apiKey loc net =
     (case validateConfig apiKey of
        Inl e \<Rightarrow> Inl e
      | Inr _ \<Rightarrow>
          if \<not> valid_location loc
          then Inl (WeatherApiError ''Location is required and must be a valid string.''
                      validation None)
          else (case try_body net of Inl e \<Rightarrow> Inl (catch_block e) | Inr data \<Rightarrow> Inr data))"

subsection \<open>Dates and numbers as text\<close>

function digits10 :: "nat \<Rightarrow> nat list" where
  \<comment> \<open>the decimal digits of a number, most significant first\<close>
  "digits10 n = (if n < 10 then [n] else digits10 (n div 10) @ [n mod 10])"
  by pat_completeness auto
termination
  by (relation "measure id") auto

definition pad :: "nat \<Rightarrow> nat \<Rightarrow> jstring" where
  \<comment> \<open>a number in decimal, filled with zeros on the left to the given width\<close>
  "pad w n = map (\<lambda>d. 48 + d) (replicate (w - length (digits10 n)) 0 @ digits10 n)"

record js_date =
  epoch_ms :: int
    \<comment> \<open>the time value: milliseconds since 1970-01-01T00:00:00Z\<close>
  tz_offset :: int
    \<comment> \<open>\<open>getTimezoneOffset()\<close> at that instant: minutes, UTC minus local time\<close>

definition getHours :: "js_date \<Rightarrow> int" where
  \<comment> \<open>\<open>Date.prototype.getHours\<close>: the hour of the local time\<close>
  "getHours d = ((epoch_ms d - tz_offset d * 60000) div 3600000) mod 24"

definition civil_from_days :: "int \<Rightarrow> int \<times> int \<times> int" where
  \<comment> \<open>year, month and day of the proleptic Gregorian calendar for a day number counted
      from 1970-01-01\<close>
  "civil_from_days z0 =
     (let z = z0 + 719468;
          era = z div 146097;
          doe = z - era * 146097;
          yoe = (doe - doe div 1460 + doe div 36524 - doe div 146096) div 365;
          doy = doe - (365 * yoe + yoe div 4 - yoe div 100);
          mp = (5 * doy + 2) div 153;
          d = doy - (153 * mp + 2) div 5 + 1;
          m = (if mp < 10 then mp + 3 else mp - 9);
          y = yoe + era * 400 + (if m \<le> 2 then 1 else 0)
      in (y, m, d))"

definition iso_date :: "int \<Rightarrow> jstring" where
  \<comment> \<open>\<open>YYYY-MM-DD\<close> (with the six-digit signed year outside 0..9999) for a time value read
      as UTC\<close>
  "iso_date ms =
     (case civil_from_days (ms div 86400000) of
        (y, m, d) \<Rightarrow>
          (if 0 \<le> y \<and> y \<le> 9999 then pad 4 (nat y)
           else (if y < 0 then 45 else 43) # pad 6 (nat \<bar>y\<bar>))
          @ [45] @ pad 2 (nat m) @ [45] @ pad 2 (nat d))"

definition toISOString :: "js_date \<Rightarrow> jstring" where
  \<comment> \<open>\<open>Date.prototype.toISOString\<close>: always UTC, \<open>YYYY-MM-DDTHH:mm:ss.sssZ\<close>\<close>
  "toISOString d =
     (let r = epoch_ms d mod 86400000
      in iso_date (epoch_ms d) @ [84] @ pad 2 (nat (r div 3600000)) @ [58] @
         pad 2 (nat ((r div 60000) mod 60)) @ [58] @ pad 2 (nat ((r div 1000) mod 60)) @ [46] @
         pad 3 (nat (r mod 1000)) @ [90])"

fun split_on :: "nat \<Rightarrow> jstring \<Rightarrow> jstring list" where
  \<comment> \<open>\<open>String.prototype.split\<close> with a separator of one code unit\<close>
  "split_on sep [] = [[]]"
| "split_on sep (c # cs) =
     (if c = sep then [] # split_on sep cs
      else (case split_on sep cs of [] \<Rightarrow> [[c]] | x # xs \<Rightarrow> (c # x) # xs))"

definition at_index :: "'a list \<Rightarrow> nat \<Rightarrow> 'a option" where
  \<comment> \<open>an array read \<open>a[i]\<close>; \<open>None\<close> is \<open>undefined\<close>\<close>
  "at_index xs i = (if i < length xs then Some (xs ! i) else None)"

definition digit_value :: "nat \<Rightarrow> nat option" where
  "digit_value c =
     (if 48 \<le> c \<and> c \<le> 57 then Some (c - 48)
      else if 97 \<le> c \<and> c \<le> 122 then Some (c - 87)
      else if 65 \<le> c \<and> c \<le> 90 then Some (c - 55)
      else None)"

definition radix_digit :: "nat \<Rightarrow> nat \<Rightarrow> bool" where
  "radix_digit r c \<longleftrightarrow> (case digit_value c of None \<Rightarrow> False | Some v \<Rightarrow> v < r)"

definition parse_digits :: "nat \<Rightarrow> jstring \<Rightarrow> number option" where
  \<comment> \<open>the longest prefix of digits of the radix, as a number; \<open>None\<close> is \<open>NaN\<close>\<close>
  "parse_digits r s =
     (let ds = takeWhile (radix_digit r) s
      in if ds = [] then None
         else Some (int (foldl (\<lambda>a c. a * r + the (digit_value c)) 0 ds)))"

definition parseInt :: "jstring \<Rightarrow> number option" where
  \<comment> \<open>\<open>parseInt(string)\<close> with no radix: leading whitespace is skipped, a sign is read, a
      prefix \<open>0x\<close> or \<open>0X\<close> selects radix 16, otherwise the radix is 10; \<open>None\<close> is
      \<open>NaN\<close>\<close>
  "parseInt str =
     (let s = dropWhile is_ws str;
          neg = (s \<noteq> [] \<and> hd s = 45);
          s1 = (if s \<noteq> [] \<and> (hd s = 45 \<or> hd s = 43) then tl s else s);
          hex = (length s1 \<ge> 2 \<and> s1 ! 0 = 48 \<and> (s1 ! 1 = 120 \<or> s1 ! 1 = 88));
          v = (if hex then parse_digits 16 (drop 2 s1) else parse_digits 10 s1)
      in (case v of None \<Rightarrow> None | Some n \<Rightarrow> Some (if neg then - n else n)))"

subsection \<open>The transformations\<close>

record current_weather =
  temperature :: number
  feelsLike :: number
  condition :: jstring
  conditionIcon :: jstring
  humidity :: number
  windSpeed :: number
  windDirection :: "jstring option"
  lastUpdated :: jstring

record hourly_entry =
  time :: jstring
  temperature :: number
  condition :: jstring
  conditionIcon :: jstring
  precipitationChance :: "number option"
  windSpeed :: number
  humidity :: number

record daily_entry =
  date :: jstring
  highTemp :: number
  lowTemp :: number
  condition :: jstring
  conditionIcon :: jstring
  precipitationChance :: "number option"

record location_info =
  city :: jstring
  region :: "jstring option"
  country :: "jstring option"
  timezone :: jstring
  localtime :: jstring

definition truthy :: "number option \<Rightarrow> bool" where
  \<comment> \<open>a missing or \<open>null\<close> field and the number 0 are falsy\<close>
  "truthy v \<longleftrightarrow> (case v of None \<Rightarrow> False | Some n \<Rightarrow> n \<noteq> 0)"

definition js_or :: "number option \<Rightarrow> number option \<Rightarrow> number option" where
  \<comment> \<open>the operator \<open>||\<close>\<close>
  "js_or a b = (if truthy a then a else b)"

definition undefined_read :: js_error where
  \<comment> \<open>what a property read on \<open>undefined\<close> or \<open>null\<close> throws\<close>
  "undefined_read = TypeError ''Cannot read properties of undefined''"

definition transformCurrentWeather :: "raw_data \<Rightarrow> js_error + current_weather" where
  "transformCurrentWeather data =
     (case raw_data.current data of
        None \<Rightarrow> Inl undefined_read
      | Some c \<Rightarrow>
          Inr \<lparr>current_weather.temperature = raw_current.temp_f c,
               current_weather.feelsLike = feelslike_f c,
               current_weather.condition = text' (raw_current.condition c),
               current_weather.conditionIcon = icon (raw_current.condition c),
               current_weather.humidity = raw_current.humidity c,
               current_weather.windSpeed = raw_current.wind_mph c,
               current_weather.windDirection = wind_dir c,
               current_weather.lastUpdated = last_updated c\<rparr>)"

definition hourly_of :: "raw_hour \<Rightarrow> hourly_entry" where
  \<comment> \<open>the object pushed for one hour\<close>
  "hourly_of h =
     \<lparr>hourly_entry.time = raw_hour.time h,
      hourly_entry.temperature = raw_hour.temp_f h,
      hourly_entry.condition = text' (raw_hour.condition h),
      hourly_entry.conditionIcon = icon (raw_hour.condition h),
      hourly_entry.precipitationChance = js_or (js_or (chance_of_rain h) (chance_of_snow h)) (Some 0),
      hourly_entry.windSpeed = raw_hour.wind_mph h,
      hourly_entry.humidity = raw_hour.humidity h\<rparr>"

definition collect_hours :: "raw_day list \<Rightarrow> hourly_entry list" where
  \<comment> \<open>the two nested \<open>forEach\<close> loops that fill \<open>hourlyData\<close>\<close>
  "collect_hours forecastDays =
     concat (map (\<lambda>d. case hour d of None \<Rightarrow> [] | Some hs \<Rightarrow> map hourly_of hs) forecastDays)"

definition future_hour :: "jstring \<Rightarrow> number \<Rightarrow> hourly_entry \<Rightarrow> js_error + bool" where
  \<comment> \<open>the callback of \<open>hourlyData.filter\<close>\<close>
  "future_hour currentDate currentHour h =
     (let parts = split_on 32 (hourly_entry.time h);
          hourDate = hd parts
      in (case at_index parts 1 of
            None \<Rightarrow> Inl undefined_read
          | Some clock \<Rightarrow>
              (let hourTime = parseInt (hd (split_on 58 clock))
               in if hourDate = currentDate
                  then Inr (case hourTime of None \<Rightarrow> False | Some n \<Rightarrow> n \<ge> currentHour)
                  else Inr (hourDate > currentDate))))"

fun filter_raise :: "('a \<Rightarrow> js_error + bool) \<Rightarrow> 'a list \<Rightarrow> js_error + 'a list" where
  \<comment> \<open>\<open>Array.prototype.filter\<close> with a callback that may throw\<close>
  "filter_raise p [] = Inr []"
| "filter_raise p (x # xs) =
     (case p x of
        Inl e \<Rightarrow> Inl e
      | Inr b \<Rightarrow>
          (case filter_raise p xs of
             Inl e \<Rightarrow> Inl e
           | Inr ys \<Rightarrow> Inr (if b then x # ys else ys)))"

definition transformHourlyForecast :: "raw_data \<Rightarrow> js_date \<Rightarrow> js_error + hourly_entry list" where
  \<comment> \<open>the second argument is what \<open>new Date()\<close> gives when the function runs\<close>
  "transformHourlyForecast data now =
     (case forecast data of
        None \<Rightarrow> Inl undefined_read
      | Some fc \<Rightarrow>
          (case forecastday fc of
             None \<Rightarrow> Inr []
           | Some forecastDays \<Rightarrow>
               if length forecastDays = 0 then Inr []
               else
                 (let hourlyData = collect_hours forecastDays
                  in if length hourlyData \<le> 24 then Inr hourlyData
                     else
                       (let currentHour = getHours now;
                            currentDate = hd (split_on 84 (toISOString now))
                        in (case filter_raise (future_hour currentDate currentHour) hourlyData of
                              Inl e \<Rightarrow> Inl e
                            | Inr futureHours \<Rightarrow> Inr (take 24 futureHours))))))"

definition daily_of :: "raw_day \<Rightarrow> daily_entry" where
  \<comment> \<open>the object built for one forecast day\<close>
  "daily_of d =
     \<lparr>daily_entry.date = raw_day.date d,
      daily_entry.highTemp = maxtemp_f (day d),
      daily_entry.lowTemp = mintemp_f (day d),
      daily_entry.condition = text' (raw_day_summary.condition (day d)),
      daily_entry.conditionIcon = icon (raw_day_summary.condition (day d)),
      daily_entry.precipitationChance =
        js_or (js_or (daily_chance_of_rain (day d)) (daily_chance_of_snow (day d))) (Some 0)\<rparr>"

definition transformDailyForecast :: "raw_data \<Rightarrow> js_error + daily_entry list" where
  "transformDailyForecast data =
     (case forecast data of
        None \<Rightarrow> Inl undefined_read
      | Some fc \<Rightarrow>
          (case forecastday fc of
             None \<Rightarrow> Inr []
           | Some forecastDays \<Rightarrow> Inr (map daily_of forecastDays)))"

definition transformLocation :: "raw_data \<Rightarrow> js_error + location_info" where
  "transformLocation data =
     (case raw_data.location data of
        None \<Rightarrow> Inl undefined_read
      | Some l \<Rightarrow>
          Inr \<lparr>location_info.city = name l,
               location_info.region = raw_location.region l,
               location_info.country = raw_location.country l,
               location_info.timezone = tz_id l,
               location_info.localtime = raw_location.localtime l\<rparr>)"

subsection \<open>getCurrentWeather, getHourlyForecast, getDailyForecast\<close>

record current_result =
  current :: current_weather
  location :: location_info

record hourly_result =
  hourly :: "hourly_entry list"
  location :: location_info

record daily_result =
  daily :: "daily_entry list"
  location :: location_info

definition getCurrentWeather :: "jstring option \<Rightarrow> js_value \<Rightarrow> fetch_result \<Rightarrow> js_error + current_result" where
  "getCurrentWeather apiKey loc net =
     (case fetchWeatherData apiKey loc net of
        Inl e \<Rightarrow> Inl e
      | Inr data \<Rightarrow>
          (case transformCurrentWeather data of
             Inl e \<Rightarrow> Inl e
           | Inr c \<Rightarrow>
               (case transformLocation data of
                  Inl e \<Rightarrow> Inl e
                | Inr l \<Rightarrow> Inr \<lparr>current_result.current = c, current_result.location = l\<rparr>)))"

definition getHourlyForecast ::
  "jstring option \<Rightarrow> js_value \<Rightarrow> fetch_result \<Rightarrow> js_date \<Rightarrow> js_error + hourly_result" where
  "getHourlyForecast apiKey loc net now =
     (case fetchWeatherData apiKey loc net of
        Inl e \<Rightarrow> Inl e
      | Inr data \<Rightarrow>
          (case transformHourlyForecast data now of
             Inl e \<Rightarrow> Inl e
           | Inr hs \<Rightarrow>
               (case transformLocation data of
                  Inl e \<Rightarrow> Inl e
                | Inr l \<Rightarrow> Inr \<lparr>hourly_result.hourly = hs, hourly_result.location = l\<rparr>)))"

definition getDailyForecast :: "jstring option \<Rightarrow> js_value \<Rightarrow> fetch_result \<Rightarrow> js_error + daily_result" where
  "getDailyForecast apiKey loc net =
     (case fetchWeatherData apiKey loc net of
        Inl e \<Rightarrow> Inl e
      | Inr data \<Rightarrow>
          (case transformDailyForecast data of
             Inl e \<Rightarrow> Inl e
           | Inr ds \<Rightarrow>
               (case transformLocation data of
                  Inl e \<Rightarrow> Inl e
                | Inr l \<Rightarrow> Inr \<lparr>daily_result.daily = ds, daily_result.location = l\<rparr>)))"

section \<open>stores/weather.js\<close>

definition DEFAULT_LOCATION :: jstring where
  "DEFAULT_LOCATION = js ''San Francisco''"

definition STORAGE_KEY :: jstring where
  "STORAGE_KEY = js ''weather_last_location''"

record weather_state =
  currentWeather :: "current_weather option"
  hourlyForecast :: "hourly_entry list"
  dailyForecast :: "daily_entry list"
  location :: "location_info option"
  isLoading :: bool
  error :: "string option"
  lastUpdated :: "number option"

definition initial_state :: weather_state where
  "initial_state =
     \<lparr>currentWeather = None, hourlyForecast = [], dailyForecast = [],
      weather_state.location = None, isLoading = False, error = None,
      weather_state.lastUpdated = None\<rparr>"

subsection \<open>localStorage\<close>

record local_storage =
  items :: "jstring \<rightharpoonup> jstring"
  setItem_throws :: bool
    \<comment> \<open>the storage refuses writes (private browsing, quota)\<close>
  getItem_throws :: bool
    \<comment> \<open>the storage refuses reads\<close>

definition saveLastLocation :: "jstring \<Rightarrow> local_storage \<Rightarrow> local_storage" where
  \<comment> \<open>the exception of \<open>setItem\<close> is caught and logged\<close>
  "saveLastLocation loc st =
     (if setItem_throws st then st else st\<lparr>items := (items st)(STORAGE_KEY \<mapsto> loc)\<rparr>)"

definition loadLastLocation :: "local_storage \<Rightarrow> jstring option" where
  "loadLastLocation st = (if getItem_throws st then None else items st STORAGE_KEY)"

subsection \<open>The getter formattedLastUpdated\<close>

definition show_int :: "int \<Rightarrow> string" where
  \<comment> \<open>an integer as a template literal prints it\<close>
  "show_int i =
     (if i < 0 then CHR ''-'' # map (\<lambda>d. char_of (48 + d)) (digits10 (nat (- i)))
      else map (\<lambda>d. char_of (48 + d)) (digits10 (nat i)))"

text \<open>
  Pinia defines a getter as a computed value of the reactivity system: its text is cached,
  and a read runs the getter function again only when it has not run yet or when a reactive
  value it read has been written a different value since. The function reads
  \<open>state.lastUpdated\<close>, which is reactive, and \<open>Date.now()\<close>, which is not. A store is
  therefore a state together with the cached text of the getter.
\<close>

definition formattedLastUpdated_compute :: "weather_state \<Rightarrow> int \<Rightarrow> string" where
  \<comment> \<open>the getter function; the second argument is what \<open>Date.now()\<close> gives when it runs;
      a \<open>lastUpdated\<close> of \<open>null\<close> or 0 is falsy\<close>
  "formattedLastUpdated_compute state now =
     (case weather_state.lastUpdated state of
        None \<Rightarrow> ''Never''
      | Some t \<Rightarrow>
          if t = 0 then ''Never''
          else
            (let diffMs = now - t;
                 diffSec = diffMs div 1000;
                 diffMin = diffSec div 60;
                 diffHour = diffMin div 60
             in if diffSec < 30 then ''Just now''
                else if diffSec < 60 then show_int diffSec @ '' seconds ago''
                else if diffMin = 1 then ''1 minute ago''
                else if diffMin < 60 then show_int diffMin @ '' minutes ago''
                else if diffHour = 1 then ''1 hour ago''
                else if diffHour < 24 then show_int diffHour @ '' hours ago''
                else
                  (let diffDays = diffHour div 24
                   in if diffDays = 1 then ''1 day ago'' else show_int diffDays @ '' days ago'')))"

record weather_store =
  store_state :: weather_state
  formattedLastUpdated_cache :: "string option"
    \<comment> \<open>the text of the last run of the getter function; \<open>None\<close> when it has not run, or
        when \<open>lastUpdated\<close> was written a different value since\<close>

definition formattedLastUpdated :: "weather_store \<Rightarrow> int \<Rightarrow> string \<times> weather_store" where
  \<comment> \<open>a read of \<open>store.formattedLastUpdated\<close> when the clock shows the second argument:
      the text read, and the store after the read\<close>
  "formattedLastUpdated st now =
     (case formattedLastUpdated_cache st of
        Some txt \<Rightarrow> (txt, st)
      | None \<Rightarrow>
          (let txt = formattedLastUpdated_compute (store_state st) now
           in (txt, st\<lparr>formattedLastUpdated_cache := Some txt\<rparr>)))"

definition write_state :: "weather_state \<Rightarrow> weather_store \<Rightarrow> weather_store" where
  \<comment> \<open>the state is written (by an action, or by an assignment to a field of the store): the
      cached text stays unless \<open>lastUpdated\<close> gets a different value\<close>
  "write_state s st =
     \<lparr>store_state = s,
      formattedLastUpdated_cache =
        (if weather_state.lastUpdated s = weather_state.lastUpdated (store_state st)
         then formattedLastUpdated_cache st else None)\<rparr>"

subsection \<open>The action fetchWeatherData\<close>

text \<open>
  Each of the three provider calls settles at some time with an error or a result.
  \<open>Promise.all\<close> fulfils with the three results when all three calls fulfil, and rejects
  with the error of the call that rejects first otherwise.
\<close>

type_synonym 'a settled = "nat \<times> (js_error + 'a)"

definition rejection :: "'a settled \<Rightarrow> (nat \<times> js_error) list" where
  "rejection p = (case snd p of Inl e \<Rightarrow> [(fst p, e)] | Inr v \<Rightarrow> [])"

fun earliest :: "(nat \<times> js_error) list \<Rightarrow> (nat \<times> js_error) option" where
  \<comment> \<open>the first entry with the least time\<close>
  "earliest [] = None"
| "earliest (x # xs) =
     (case earliest xs of
        None \<Rightarrow> Some x
      | Some y \<Rightarrow> if fst y < fst x then Some y else Some x)"

definition promise_all ::
  "current_result settled \<Rightarrow> hourly_result settled \<Rightarrow> daily_result settled \<Rightarrow>
   js_error + (current_result \<times> hourly_result \<times> daily_result)" where
  \<comment> \<open>the branch \<open>None\<close> is never taken: a call that did not fulfil is in the list of
      rejections\<close>
  "promise_all c h d =
     (case (snd c, snd h, snd d) of
        (Inr cv, Inr hv, Inr dv) \<Rightarrow> Inr (cv, hv, dv)
      | _ \<Rightarrow>
          (case earliest (rejection c @ rejection h @ rejection d) of
             Some (t, e) \<Rightarrow> Inl e
           | None \<Rightarrow> Inl (OtherError [])))"

definition fetch_start :: "weather_state \<Rightarrow> weather_state" where
  \<comment> \<open>the two assignments before the \<open>try\<close>\<close>
  "fetch_start s = s\<lparr>isLoading := True, error := None\<rparr>"

definition error_message :: "js_error \<Rightarrow> string" where
  \<comment> \<open>the message the \<open>catch\<close> block stores\<close>
  "error_message err =
     (case err of
        WeatherApiError m t orig \<Rightarrow> m
      | _ \<Rightarrow> ''Something went wrong. Please try again.'')"

definition store_fetchWeatherData ::
  "weather_state \<times> local_storage \<Rightarrow> jstring \<Rightarrow>
   current_result settled \<Rightarrow> hourly_result settled \<Rightarrow> daily_result settled \<Rightarrow> nat \<Rightarrow>
   weather_state \<times> local_storage" where
  \<comment> \<open>the state and the storage before the call, the location query, what the three provider
      calls settle with, and \<open>Date.now()\<close> at the moment of the commit\<close>
  "store_fetchWeatherData ss locationQuery c h d now =
     (let s1 = fetch_start (fst ss);
          st = snd ss;
          (s2, st2) =
            (case promise_all c h d of
               Inr (currentData, hourlyData, dailyData) \<Rightarrow>
                 (s1\<lparr>currentWeather := Some (current_result.current currentData),
                     hourlyForecast := hourly hourlyData,
                     dailyForecast := daily dailyData,
                     weather_state.location := Some (current_result.location currentData),
                     weather_state.lastUpdated := Some (int now)\<rparr>,
                  saveLastLocation locationQuery st)
             | Inl err \<Rightarrow> (s1\<lparr>error := Some (error_message err)\<rparr>, st))
      in (s2\<lparr>isLoading := False\<rparr>, st2))"

subsection \<open>refreshWeather, clearError, initializeStore\<close>

definition refreshWeather ::
  "weather_state \<times> local_storage \<Rightarrow>
   current_result settled \<Rightarrow> hourly_result settled \<Rightarrow> daily_result settled \<Rightarrow> nat \<Rightarrow>
   weather_state \<times> local_storage" where
  \<comment> \<open>\<open>this.location?.city || DEFAULT_LOCATION\<close>: an empty city name is falsy\<close>
  "refreshWeather ss c h d now =
     (let locationToRefresh =
            (case weather_state.location (fst ss) of
               None \<Rightarrow> DEFAULT_LOCATION
             | Some l \<Rightarrow> if city l = [] then DEFAULT_LOCATION else city l)
      in store_fetchWeatherData ss locationToRefresh c h d now)"

definition clearError :: "weather_state \<Rightarrow> weather_state" where
  "clearError s = s\<lparr>weather_state.error := None\<rparr>"

definition initializeStore ::
  "weather_state \<times> local_storage \<Rightarrow>
   current_result settled \<Rightarrow> hourly_result settled \<Rightarrow> daily_result settled \<Rightarrow> nat \<Rightarrow>
   weather_state \<times> local_storage" where
  \<comment> \<open>\<open>lastLocation || DEFAULT_LOCATION\<close>: a missing or empty stored string is falsy\<close>
  "initializeStore ss c h d now =
     (let initialLocation =
            (case loadLastLocation (snd ss) of
               None \<Rightarrow> DEFAULT_LOCATION
             | Some l \<Rightarrow> if l = [] then DEFAULT_LOCATION else l)
      in store_fetchWeatherData ss initialLocation c h d now)"

section \<open>Auxiliary definitions for the properties\<close>

subsection \<open>The days and hours of an answer\<close>

text \<open>
  \<open>days_of\<close> is the list \<open>data.forecast.forecastday\<close> (empty when it is missing) and
  \<open>hours_of\<close> the hours of all its days in order: the flattened hourly input.
\<close>

definition days_of :: "raw_data \<Rightarrow> raw_day list" where
  "days_of data =
     (case forecast data of
        None \<Rightarrow> []
      | Some fc \<Rightarrow> (case forecastday fc of None \<Rightarrow> [] | Some ds \<Rightarrow> ds))"

definition hours_of :: "raw_data \<Rightarrow> raw_hour list" where
  "hours_of data = concat (map (\<lambda>d. case hour d of None \<Rightarrow> [] | Some hs \<Rightarrow> hs) (days_of data))"

subsection \<open>The rules as the specification words them\<close>

definition precipitation_rule :: "number option \<Rightarrow> number option \<Rightarrow> number" where
  \<comment> \<open>the rain chance if present and truthy, else the snow chance if present and truthy,
      else 0\<close>
  "precipitation_rule rain snow =
     (case rain of
        Some r \<Rightarrow>
          if r \<noteq> 0 then r
          else (case snow of Some s \<Rightarrow> if s \<noteq> 0 then s else 0 | None \<Rightarrow> 0)
      | None \<Rightarrow> (case snow of Some s \<Rightarrow> if s \<noteq> 0 then s else 0 | None \<Rightarrow> 0))"

text \<open>
  The window of the specification: with today the calendar date of the caller's local time
  and the current hour the hour of that local time, the entries of a later date, or of today
  at the current hour or later, and of these the first 24.
\<close>

definition local_date :: "js_date \<Rightarrow> jstring" where
  "local_date d = iso_date (epoch_ms d - tz_offset d * 60000)"

definition entry_date :: "hourly_entry \<Rightarrow> jstring" where
  "entry_date e = hd (split_on 32 (hourly_entry.time e))"

definition entry_hour :: "hourly_entry \<Rightarrow> number option" where
  "entry_hour e =
     (case at_index (split_on 32 (hourly_entry.time e)) 1 of
        None \<Rightarrow> None
      | Some clock \<Rightarrow> parseInt (hd (split_on 58 clock)))"

definition claimed_window :: "js_date \<Rightarrow> hourly_entry list \<Rightarrow> hourly_entry list" where
  "claimed_window now flat =
     (if length flat \<le> 24 then flat
      else take 24 (filter (\<lambda>e. entry_date e > local_date now \<or>
                                 (entry_date e = local_date now \<and>
                                  (case entry_hour e of None \<Rightarrow> False | Some n \<Rightarrow> n \<ge> getHours now)))
                      flat))"

subsection \<open>Sample values\<close>

text \<open>
  An answer with three days of 24 hours each, from 2025-01-01 to 2025-01-03, and a clock
  reading of a caller eight hours behind UTC at 20:00 local time on 2025-01-01, which is
  04:00 on 2025-01-02 in UTC.
\<close>

definition sample_hour :: "jstring \<Rightarrow> nat \<Rightarrow> raw_hour" where
  "sample_hour dt n =
     \<lparr>raw_hour.time = dt @ [32] @ pad 2 n @ js '':00'',
      raw_hour.temp_f = 50,
      raw_hour.condition = \<lparr>text' = js ''Clear'', icon = js ''//cdn.weatherapi.com/113.png''\<rparr>,
      chance_of_rain = Some 0, chance_of_snow = Some 0,
      raw_hour.wind_mph = 5, raw_hour.humidity = 60\<rparr>"

definition sample_day :: "jstring \<Rightarrow> raw_day" where
  "sample_day dt =
     \<lparr>raw_day.date = dt,
      day = \<lparr>maxtemp_f = 55, mintemp_f = 45,
             raw_day_summary.condition = \<lparr>text' = js ''Clear'', icon = js ''//cdn.weatherapi.com/113.png''\<rparr>,
             daily_chance_of_rain = Some 0, daily_chance_of_snow = Some 80\<rparr>,
      hour = Some (map (sample_hour dt) [0..<24])\<rparr>"

definition sample_data :: raw_data where
  "sample_data =
     \<lparr>raw_data.location =
        Some \<lparr>name = js ''San Francisco'', raw_location.region = Some (js ''California''),
              raw_location.country = Some (js ''USA''), tz_id = js ''America/Los_Angeles'',
              raw_location.localtime = js ''2025-01-01 20:00''\<rparr>,
      raw_data.current =
        Some \<lparr>raw_current.temp_f = 50, feelslike_f = 48,
              raw_current.condition = \<lparr>text' = js ''Clear'', icon = js ''//cdn.weatherapi.com/113.png''\<rparr>,
              raw_current.humidity = 60, raw_current.wind_mph = 5, wind_dir = Some (js ''NW''),
              last_updated = js ''2025-01-01 20:00''\<rparr>,
      forecast =
        Some \<lparr>forecastday =
                Some [sample_day (js ''2025-01-01''), sample_day (js ''2025-01-02''),
                      sample_day (js ''2025-01-03'')]\<rparr>\<rparr>"

definition sample_now :: js_date where
  "sample_now = \<lparr>epoch_ms = 1735790400000, tz_offset = 480\<rparr>"

definition sample_current :: current_weather where
  "sample_current =
     \<lparr>current_weather.temperature = 50, feelsLike = 48,
      current_weather.condition = js ''Clear'',
      current_weather.conditionIcon = js ''//cdn.weatherapi.com/113.png'',
      current_weather.humidity = 60, current_weather.windSpeed = 5,
      windDirection = Some (js ''NW''), current_weather.lastUpdated = js ''2025-01-01 20:00''\<rparr>"

definition sample_location :: location_info where
  "sample_location =
     \<lparr>city = js ''San Francisco'', location_info.region = Some (js ''California''),
      location_info.country = Some (js ''USA''), timezone = js ''America/Los_Angeles'',
      location_info.localtime = js ''2025-01-01 20:00''\<rparr>"

definition sample_state :: weather_state where
  \<comment> \<open>a state after an earlier successful fetch\<close>
  "sample_state =
     \<lparr>currentWeather = Some sample_current, hourlyForecast = [], dailyForecast = [],
      weather_state.location = Some sample_location, isLoading = False, error = None,
      weather_state.lastUpdated = Some 1735790400000\<rparr>"

definition sample_store :: weather_store where
  \<comment> \<open>the sample state, the getter not read yet\<close>
  "sample_store = \<lparr>store_state = sample_state, formattedLastUpdated_cache = None\<rparr>"

definition sample_storage :: local_storage where
  "sample_storage =
     \<lparr>items = [STORAGE_KEY \<mapsto> js ''San Francisco''], setItem_throws = False,
      getItem_throws = False\<rparr>"


section \<open>Properties of the search detector\<close>

lemma dropWhile_keep: "xs \<noteq> [] \<Longrightarrow> \<not> P (hd xs) \<Longrightarrow> dropWhile P xs = xs"
  by (cases xs) auto

lemma trim_sub: "\<exists>j m. trim s = take m (drop j s)"
proof -
  let ?y = "dropWhile is_ws s"
  have y: "?y = drop (length (takeWhile is_ws s)) s"
    by (rule dropWhile_eq_drop)
  have "dropWhile is_ws (rev ?y) = drop (length (takeWhile is_ws (rev ?y))) (rev ?y)"
    by (rule dropWhile_eq_drop)
  then have "trim s = take (length ?y - length (takeWhile is_ws (rev ?y))) ?y"
    by (simp add: trim_def rev_drop)
  with y show ?thesis by metis
qed

lemma length_trim_le: "length (trim s) \<le> length s"
proof -
  obtain j m where "trim s = take m (drop j s)" using trim_sub by blast
  then show ?thesis by simp
qed

lemma trim_fix:
  assumes "s = [] \<or> (\<not> is_ws (hd s) \<and> \<not> is_ws (last s))"
  shows "trim s = s"
proof (cases s)
  case Nil
  then show ?thesis by (simp add: trim_def)
next
  case (Cons a t)
  with assms have h: "\<not> is_ws a" and l: "\<not> is_ws (last s)" by auto
  from h Cons have 1: "dropWhile is_ws s = s" by simp
  from Cons have "rev s \<noteq> []" by simp
  moreover have "hd (rev s) = last s" using Cons by (simp add: hd_rev)
  ultimately have 2: "dropWhile is_ws (rev s) = rev s" using l
    by (simp add: dropWhile_keep)
  show ?thesis by (simp add: trim_def 1 2)
qed

lemma trim_ends:
  "trim s = [] \<or> (\<not> is_ws (hd (trim s)) \<and> \<not> is_ws (last (trim s)))"
proof (cases "trim s = []")
  case True
  then show ?thesis by simp
next
  case False
  let ?y = "dropWhile is_ws s"
  let ?z = "dropWhile is_ws (rev ?y)"
  from False have z: "?z \<noteq> []" by (simp add: trim_def)
  then have "\<not> is_ws (hd ?z)" by (rule hd_dropWhile)
  then have l: "\<not> is_ws (last (trim s))" using z by (simp add: trim_def last_rev)
  have y: "?y \<noteq> []"
  proof
    assume "?y = []"
    with z show False by (metis dropWhile.simps(1) rev.simps(1))
  qed
  have "\<exists>k. ?z = drop k (rev ?y)" using dropWhile_eq_drop by blast
  then obtain k where k: "?z = drop k (rev ?y)" by blast
  with z have "last ?z = last (rev ?y)" by (simp add: last_drop)
  then have "hd (trim s) = hd ?y" using y z by (simp add: trim_def hd_rev last_rev)
  moreover have "\<not> is_ws (hd ?y)" using y by (rule hd_dropWhile)
  ultimately show ?thesis using l by simp
qed

lemma trim_idem: "trim (trim s) = trim s"
  using trim_ends [of s] by (rule trim_fix)

lemma spaced_collapse_ws: "spaced (collapse_ws xs)"
proof (induction xs rule: collapse_ws.induct)
  case 1
  show ?case by simp
next
  case (2 c cs)
  show ?case
  proof (cases "is_ws c")
    case True
    let ?r = "dropWhile is_ws cs"
    from True have step: "collapse_ws (c # cs) = 32 # collapse_ws ?r" by simp
    show ?thesis
    proof (cases ?r)
      case Nil
      then have "collapse_ws ?r = []" by (simp only: collapse_ws.simps)
      with step show ?thesis by (simp only: spaced.simps) simp
    next
      case (Cons d ds)
      then have "?r \<noteq> []" by simp
      then have "\<not> is_ws (hd ?r)" by (rule hd_dropWhile)
      with Cons have d: "\<not> is_ws d" by simp
      from 2(1) True Cons have "spaced (collapse_ws (d # ds))" by simp
      moreover from d have "collapse_ws (d # ds) = d # collapse_ws ds" by simp
      ultimately have "spaced (32 # collapse_ws (d # ds))" using d by simp
      with step Cons show ?thesis by (simp only:)
    qed
  next
    case False
    with 2(2) have ih: "spaced (collapse_ws cs)" by simp
    show ?thesis
    proof (cases "collapse_ws cs")
      case Nil
      with False show ?thesis by simp
    next
      case (Cons d ds)
      with False ih show ?thesis by simp
    qed
  qed
qed

lemma collapse_ws_fix: "spaced xs \<Longrightarrow> collapse_ws xs = xs"
  by (induction xs rule: spaced.induct) auto

lemma spaced_tl: "spaced xs \<Longrightarrow> spaced (tl xs)"
  by (induction xs rule: spaced.induct) auto

lemma spaced_drop: "spaced xs \<Longrightarrow> spaced (drop n xs)"
proof (induction n arbitrary: xs)
  case 0
  then show ?case by simp
next
  case (Suc n)
  from Suc.prems have "spaced (tl xs)" by (rule spaced_tl)
  then have "spaced (drop n (tl xs))" by (rule Suc.IH)
  then show ?case by (simp add: drop_Suc)
qed

lemma spaced_take: "spaced xs \<Longrightarrow> spaced (take n xs)"
proof (induction xs arbitrary: n rule: spaced.induct)
  case 1
  show ?case by simp
next
  case (2 c)
  then show ?case by (cases n) auto
next
  case (3 c d cs)
  show ?case
  proof (cases n)
    case 0
    then show ?thesis by simp
  next
    case (Suc m)
    from 3 have ih: "spaced (take m (d # cs))" by simp
    show ?thesis
    proof (cases m)
      case 0
      with Suc 3(2) show ?thesis by simp
    next
      case (Suc k)
      with ih 3(2) \<open>n = Suc m\<close> show ?thesis by simp
    qed
  qed
qed

lemma spaced_trim: "spaced xs \<Longrightarrow> spaced (trim xs)"
proof -
  assume a: "spaced xs"
  obtain j m where "trim xs = take m (drop j xs)" using trim_sub by blast
  with a show ?thesis by (simp add: spaced_take spaced_drop)
qed

lemma set_trim: "set (trim xs) \<subseteq> set xs"
proof -
  obtain j m where "trim xs = take m (drop j xs)" using trim_sub by blast
  then show ?thesis by (metis set_take_subset set_drop_subset subset_trans)
qed

lemma set_collapse_ws: "set (collapse_ws xs) \<subseteq> insert 32 (set xs)"
proof (induction xs rule: collapse_ws.induct)
  case 1
  show ?case by simp
next
  case (2 c cs)
  show ?case
  proof (cases "is_ws c")
    case True
    with 2(1) have "set (collapse_ws (dropWhile is_ws cs)) \<subseteq> insert 32 (set (dropWhile is_ws cs))"
      by simp
    moreover have "set (dropWhile is_ws cs) \<subseteq> set cs" by (rule set_dropWhileD [THEN subsetI])
    ultimately show ?thesis using True by auto
  next
    case False
    with 2(2) show ?thesis by auto
  qed
qed

lemma strip_tags_fix: "60 \<notin> set xs \<Longrightarrow> strip_tags xs = xs"
  by (induction xs) auto


lemma no_inj_collapse:
  assumes "\<forall>c \<in> set xs. \<not> injection_char c"
  shows "\<forall>c \<in> set (collapse_ws xs). \<not> injection_char c"
proof
  fix c assume "c \<in> set (collapse_ws xs)"
  then have "c \<in> insert 32 (set xs)" using set_collapse_ws [of xs] by (rule rev_subsetD)
  then have "c = 32 \<or> c \<in> set xs" by simp
  then show "\<not> injection_char c"
  proof
    assume "c = 32" then show ?thesis by (simp add: injection_char_def)
  next
    assume "c \<in> set xs" with assms show ?thesis by blast
  qed
qed

lemma no_inj_trim:
  assumes "\<forall>c \<in> set xs. \<not> injection_char c"
  shows "\<forall>c \<in> set (trim xs). \<not> injection_char c"
  using assms set_trim [of xs] by (meson subsetD)

lemma no_inj_take:
  assumes "\<forall>c \<in> set xs. \<not> injection_char c"
  shows "\<forall>c \<in> set (take n xs). \<not> injection_char c"
  using assms set_take_subset [of n xs] by (meson subsetD)

lemma normal_trim:
  assumes "\<forall>c \<in> set xs. \<not> injection_char c" and "spaced xs" and "length xs \<le> MAX_LENGTH"
  shows "normal (trim xs)"
  unfolding normal_def
proof (intro conjI)
  show "\<forall>c \<in> set (trim xs). \<not> injection_char c" using assms(1) by (rule no_inj_trim)
  show "spaced (trim xs)" using assms(2) by (rule spaced_trim)
  show "trim xs = [] \<or> (\<not> is_ws (hd (trim xs)) \<and> \<not> is_ws (last (trim xs)))" by (rule trim_ends)
  show "length (trim xs) \<le> MAX_LENGTH" using length_trim_le [of xs] assms(3) by (rule le_trans)
qed

lemma sanitize_string_normal: "normal (sanitize_string s)"
proof -
  define f where "f = filter (\<lambda>c. \<not> injection_char c) (strip_tags s)"
  define t where "t = trim (collapse_ws f)"
  have "\<forall>c \<in> set f. \<not> injection_char c" by (simp add: f_def)
  then have c_inj: "\<forall>c \<in> set (collapse_ws f). \<not> injection_char c" by (rule no_inj_collapse)
  have c_sp: "spaced (collapse_ws f)" by (rule spaced_collapse_ws)
  have t_inj: "\<forall>c \<in> set t. \<not> injection_char c" unfolding t_def using c_inj by (rule no_inj_trim)
  have t_sp: "spaced t" unfolding t_def using c_sp by (rule spaced_trim)
  have unfold: "sanitize_string s = (if length t > MAX_LENGTH then trim (take MAX_LENGTH t) else t)"
    by (simp add: sanitize_string_def t_def f_def Let_def)
  show ?thesis
  proof (cases "length t > MAX_LENGTH")
    case False
    then have len: "length t \<le> MAX_LENGTH" by simp
    have "normal t" unfolding normal_def
    proof (intro conjI)
      show "\<forall>c \<in> set t. \<not> injection_char c" by (rule t_inj)
      show "spaced t" by (rule t_sp)
      show "t = [] \<or> (\<not> is_ws (hd t) \<and> \<not> is_ws (last t))" unfolding t_def by (rule trim_ends)
      show "length t \<le> MAX_LENGTH" by (rule len)
    qed
    with False unfold show ?thesis by simp
  next
    case True
    have "normal (trim (take MAX_LENGTH t))"
    proof (rule normal_trim)
      show "\<forall>c \<in> set (take MAX_LENGTH t). \<not> injection_char c" using t_inj by (rule no_inj_take)
      show "spaced (take MAX_LENGTH t)" using t_sp by (rule spaced_take)
      show "length (take MAX_LENGTH t) \<le> MAX_LENGTH" by simp
    qed
    with True unfold show ?thesis by simp
  qed
qed

lemma sanitize_string_fix:
  assumes "normal s"
  shows "sanitize_string s = s"
proof -
  from assms have inj: "\<forall>c \<in> set s. \<not> injection_char c"
    and sp: "spaced s"
    and ends: "s = [] \<or> (\<not> is_ws (hd s) \<and> \<not> is_ws (last s))"
    and len: "length s \<le> MAX_LENGTH" by (simp_all add: normal_def)
  have "\<not> injection_char c \<Longrightarrow> c \<noteq> 60" for c by (auto simp: injection_char_def)
  with inj have "60 \<notin> set s" by blast
  then have 1: "strip_tags s = s" by (rule strip_tags_fix)
  from inj have 2: "filter (\<lambda>c. \<not> injection_char c) s = s" by simp
  from sp have 3: "collapse_ws s = s" by (rule collapse_ws_fix)
  from ends have 4: "trim s = s" by (rule trim_fix)
  from len show ?thesis by (simp add: sanitize_string_def 1 2 3 4)
qed

text \<open>
  Claim C5: sanitizing a string twice gives the same as sanitizing it once, and a sanitized
  string has at most 100 code units.
\<close>

theorem sanitizeSearchInput_idempotent:
  "sanitizeSearchInput (Str (sanitizeSearchInput (Str s))) = sanitizeSearchInput (Str s) \<and>
   length (sanitizeSearchInput (Str s)) \<le> 100"
proof -
  have n: "normal (sanitize_string s)" by (rule sanitize_string_normal)
  then have "sanitize_string (sanitize_string s) = sanitize_string s" by (rule sanitize_string_fix)
  moreover from n have "length (sanitize_string s) \<le> 100" by (simp add: normal_def MAX_LENGTH_def)
  ultimately show ?thesis by (simp add: sanitizeSearchInput_def)
qed

lemma is_digit_not_ws: "is_digit c \<Longrightarrow> \<not> is_ws c"
  by (auto simp: is_digit_def is_ws_def)

lemma is_digit_not_alpha: "is_digit c \<Longrightarrow> \<not> is_alpha c"
  by (auto simp: is_digit_def is_alpha_def)

lemma CANADIAN_POSTAL_hd: "CANADIAN_POSTAL s \<Longrightarrow> s \<noteq> [] \<and> is_alpha (hd s)"
  by (auto simp: CANADIAN_POSTAL_def split: list.splits)

lemma UK_POSTCODE_hd: "UK_POSTCODE s \<Longrightarrow> s \<noteq> [] \<and> is_alpha (hd s)"
  by (auto simp: UK_POSTCODE_def split: list.splits)

lemma toLowerCase_digits: "list_all is_digit s \<Longrightarrow> toLowerCase s = s"
  by (induction s) (auto simp: toLowerCase_def is_digit_def)

lemma US_STATES_alpha: "list_all (\<lambda>x. x \<noteq> [] \<and> is_alpha (hd x)) US_STATES"
  by (simp add: US_STATES_def js_def is_alpha_def)

lemma COUNTRIES_alpha: "list_all (\<lambda>x. x \<noteq> [] \<and> is_alpha (hd x)) COUNTRIES"
  by (simp add: COUNTRIES_def js_def is_alpha_def)

lemma digits_not_region:
  assumes "s \<noteq> []" and "list_all is_digit s"
  shows "\<not> isRegion s"
proof -
  from assms have d: "is_digit (hd s)" by (cases s) auto
  then have na: "\<not> is_alpha (hd s)" by (rule is_digit_not_alpha)
  have "s \<notin> set US_STATES" using US_STATES_alpha na by (auto simp: list_all_iff)
  moreover have "s \<notin> set COUNTRIES" using COUNTRIES_alpha na by (auto simp: list_all_iff)
  ultimately show ?thesis using assms(2) by (simp add: isRegion_def toLowerCase_digits)
qed

lemma digits_not_zip:
  assumes "s \<noteq> []" and "list_all is_digit s" and "length s \<le> 3 \<or> 7 \<le> length s"
  shows "\<not> isZipCode s"
proof -
  from assms have d: "is_digit (hd s)" by (cases s) auto
  then have na: "\<not> is_alpha (hd s)" by (rule is_digit_not_alpha)
  have 1: "\<not> US_ZIP s"
  proof
    assume "US_ZIP s"
    with assms(3) have l: "length s = 10" and m: "s ! 5 = 45" by (auto simp: US_ZIP_def)
    from l assms(2) have "is_digit (s ! 5)" by (simp add: list_all_length)
    with m show False by (simp add: is_digit_def)
  qed
  have 2: "\<not> CANADIAN_POSTAL s" using CANADIAN_POSTAL_hd na by blast
  have 3: "\<not> UK_POSTCODE s" using UK_POSTCODE_hd na by blast
  have 4: "\<not> NUMERIC_POSTAL s" using assms(3) by (auto simp: NUMERIC_POSTAL_def)
  from 1 2 3 4 show ?thesis by (simp add: isZipCode_def)
qed

lemma digits_trim:
  assumes "list_all is_digit s"
  shows "trim s = s"
proof (rule trim_fix)
  show "s = [] \<or> (\<not> is_ws (hd s) \<and> \<not> is_ws (last s))"
  proof (cases "s = []")
    case True then show ?thesis by simp
  next
    case False
    then have "hd s \<in> set s" and "last s \<in> set s" by simp_all
    with assms have "is_digit (hd s)" and "is_digit (last s)" by (simp_all add: list_all_iff)
    then show ?thesis by (simp add: is_digit_not_ws)
  qed
qed

text \<open>
  Claim C10: a non-empty string of digits only, of length 1 to 3 or of length 7 or more, is
  classified as a city (it matches none of the postal patterns and no region name); the value
  is the string itself.
\<close>

theorem detectSearchType_numeric_city:
  assumes "s \<noteq> []" and "list_all is_digit s" and "length s \<le> 3 \<or> 7 \<le> length s"
  shows "detectSearchType (Str s) = \<lparr>type = CITY, val = s\<rparr>"
  using assms digits_trim [OF assms(2)] digits_not_zip [OF assms] digits_not_region [OF assms(1,2)]
  by (simp add: detectSearchType_def)

theorem detectSearchType_numeric_city_witness:
  "detectSearchType (Str (js ''123'')) = \<lparr>type = CITY, val = js ''123''\<rparr> \<and>
   detectSearchType (Str (js ''1234567'')) = \<lparr>type = CITY, val = js ''1234567''\<rparr>"
  using detectSearchType_numeric_city [of "js ''123''"] detectSearchType_numeric_city [of "js ''1234567''"]
  by (simp add: js_def is_digit_def)

text \<open>
  Claim C8: for every string the classifier returns one of the four types, decided in the
  order empty, postal pattern, region list, city; a result that is not \<open>unknown\<close> carries the
  trimmed input, which is non-empty and has no whitespace at either end; and the state name
  New York is a region.
\<close>

theorem detectSearchType_total:
  fixes s :: jstring
  defines "r \<equiv> detectSearchType (Str s)"
  shows "type r \<in> {ZIP_CODE, REGION, CITY, UNKNOWN} \<and>
    (type r = UNKNOWN \<longleftrightarrow> trim s = []) \<and>
    (type r = ZIP_CODE \<longleftrightarrow> trim s \<noteq> [] \<and> isZipCode (trim s)) \<and>
    (type r = REGION \<longleftrightarrow> trim s \<noteq> [] \<and> \<not> isZipCode (trim s) \<and> isRegion (trim s)) \<and>
    (type r = CITY \<longleftrightarrow> trim s \<noteq> [] \<and> \<not> isZipCode (trim s) \<and> \<not> isRegion (trim s)) \<and>
    (type r \<noteq> UNKNOWN \<longrightarrow>
       val r = trim s \<and> val r \<noteq> [] \<and> \<not> is_ws (hd (val r)) \<and> \<not> is_ws (last (val r))) \<and>
    detectSearchType (Str (js ''New York'')) = \<lparr>type = REGION, val = js ''New York''\<rparr>"
proof -
  have ny: "detectSearchType (Str (js ''New York'')) = \<lparr>type = REGION, val = js ''New York''\<rparr>"
    by (simp add: detectSearchType_def js_def trim_def is_ws_def isZipCode_def US_ZIP_def
        CANADIAN_POSTAL_def UK_POSTCODE_def uk_digit_def uk_alnum_def uk_space_def uk_inward_def
        NUMERIC_POSTAL_def isRegion_def toLowerCase_def US_STATES_def is_alpha_def is_digit_def)
  have ends: "trim s \<noteq> [] \<Longrightarrow> \<not> is_ws (hd (trim s)) \<and> \<not> is_ws (last (trim s))"
    using trim_ends [of s] by blast
  show ?thesis using ny ends
    by (cases "type r") (auto simp: r_def detectSearchType_def Let_def split: if_splits)
qed

theorem detectSearchType_total_witness:
  "type (detectSearchType (Str (js '' 94102 ''))) \<noteq> UNKNOWN \<and>
   val (detectSearchType (Str (js '' 94102 ''))) = js ''94102''"
  using detectSearchType_total [of "js '' 94102 ''"]
  by (simp add: js_def trim_def is_ws_def)

text \<open>
  The region lists are matched after lowering: the two code units U+212A and \<open>S\<close> lower to
  \<open>ks\<close>, the abbreviation of Kansas.
\<close>

lemma detectSearchType_kelvin_sign:
  "detectSearchType (Str [8490, 83]) = \<lparr>type = REGION, val = [8490, 83]\<rparr>"
  by (simp add: detectSearchType_def js_def trim_def is_ws_def isZipCode_def US_ZIP_def
      CANADIAN_POSTAL_def UK_POSTCODE_def uk_digit_def uk_alnum_def uk_space_def uk_inward_def
      NUMERIC_POSTAL_def isRegion_def toLowerCase_def US_STATES_def is_alpha_def is_digit_def)

section \<open>Properties of the provider client\<close>

text \<open>
  Claim C7: when the configuration and the location pass their checks and the response is not
  in the range 200 to 299, the client raises a \<open>WeatherApiError\<close> fixed by the status:
  400 and 404 give \<open>not_found\<close> with the location message, 401 and 403 give \<open>config\<close>,
  500 and above give \<open>api_error\<close> with the message of temporary unavailability, any other
  status gives \<open>api_error\<close> with the generic message.
\<close>

theorem fetchWeatherData_http_status:
  assumes cfg: "validateConfig apiKey = Inr ()"
    and loc: "valid_location loc"
    and nok: "\<not> ok r"
  shows
    "(status r = 400 \<or> status r = 404 \<longrightarrow>
        fetchWeatherData apiKey loc (Resolved r) =
          Inl (WeatherApiError
                 ''We couldn't find that location. Please try a different city, zip code, or region.''
                 not_found None)) \<and>
     (status r = 401 \<or> status r = 403 \<longrightarrow>
        fetchWeatherData apiKey loc (Resolved r) =
          Inl (WeatherApiError ''Unable to connect to weather service. Please check configuration.''
                 config None)) \<and>
     (status r \<ge> 500 \<longrightarrow>
        fetchWeatherData apiKey loc (Resolved r) =
          Inl (WeatherApiError
                 ''Weather service is temporarily unavailable. Please try again later.''
                 api_error None)) \<and>
     (status r < 500 \<and> status r \<notin> {400, 401, 403, 404} \<longrightarrow>
        fetchWeatherData apiKey loc (Resolved r) =
          Inl (WeatherApiError ''Something went wrong. Please try again.'' api_error None))"
proof -
  have "fetchWeatherData apiKey loc (Resolved r) = Inl (catch_block (http_error (status r)))"
    using cfg loc nok by (simp add: fetchWeatherData_def try_body_def)
  moreover have "catch_block (http_error (status r)) = http_error (status r)"
    by (simp add: catch_block_def http_error_def)
  ultimately have "fetchWeatherData apiKey loc (Resolved r) = Inl (http_error (status r))"
    by simp
  then show ?thesis by (simp add: http_error_def)
qed

theorem fetchWeatherData_http_status_witness:
  "fetchWeatherData (Some (js ''abc123'')) (Str (js ''Paris''))
       (Resolved \<lparr>status = 404, json = Inr None\<rparr>) =
     Inl (WeatherApiError
            ''We couldn't find that location. Please try a different city, zip code, or region.''
            not_found None) \<and>
   fetchWeatherData (Some (js ''abc123'')) (Str (js ''Paris''))
       (Resolved \<lparr>status = 403, json = Inr None\<rparr>) =
     Inl (WeatherApiError ''Unable to connect to weather service. Please check configuration.''
            config None) \<and>
   fetchWeatherData (Some (js ''abc123'')) (Str (js ''Paris''))
       (Resolved \<lparr>status = 503, json = Inr None\<rparr>) =
     Inl (WeatherApiError ''Weather service is temporarily unavailable. Please try again later.''
            api_error None) \<and>
   fetchWeatherData (Some (js ''abc123'')) (Str (js ''Paris''))
       (Resolved \<lparr>status = 302, json = Inr None\<rparr>) =
     Inl (WeatherApiError ''Something went wrong. Please try again.'' api_error None)"
proof -
  have cfg: "validateConfig (Some (js ''abc123'')) = Inr ()"
    by (simp add: validateConfig_def js_def trim_def is_ws_def)
  have loc: "valid_location (Str (js ''Paris''))"
    by (simp add: valid_location_def js_def trim_def is_ws_def)
  have n1: "\<not> ok \<lparr>status = 404, json = Inr None\<rparr>" by (simp add: ok_def)
  have n2: "\<not> ok \<lparr>status = 403, json = Inr None\<rparr>" by (simp add: ok_def)
  have n3: "\<not> ok \<lparr>status = 503, json = Inr None\<rparr>" by (simp add: ok_def)
  have n4: "\<not> ok \<lparr>status = 302, json = Inr None\<rparr>" by (simp add: ok_def)
  show ?thesis
    using fetchWeatherData_http_status [OF cfg loc n1] fetchWeatherData_http_status [OF cfg loc n2]
      fetchWeatherData_http_status [OF cfg loc n3] fetchWeatherData_http_status [OF cfg loc n4]
    by simp
qed

section \<open>Properties of the transformations\<close>

subsection \<open>Precipitation chance\<close>

lemma js_or_rule: "js_or (js_or rain snow) (Some 0) = Some (precipitation_rule rain snow)"
  by (cases rain; cases snow) (auto simp: js_or_def truthy_def precipitation_rule_def)

lemma hourly_of_precipitation:
  "hourly_entry.precipitationChance (hourly_of h) =
     Some (precipitation_rule (chance_of_rain h) (chance_of_snow h))"
  by (simp add: hourly_of_def js_or_rule)

lemma daily_of_precipitation:
  "daily_entry.precipitationChance (daily_of d) =
     Some (precipitation_rule (daily_chance_of_rain (day d)) (daily_chance_of_snow (day d)))"
  by (simp add: daily_of_def js_or_rule)

lemma filter_raise_subset: "filter_raise p xs = Inr ys \<Longrightarrow> set ys \<subseteq> set xs"
proof (induction xs arbitrary: ys)
  case Nil
  then show ?case by simp
next
  case (Cons x xs)
  from Cons.prems obtain b zs where b: "p x = Inr b" and zs: "filter_raise p xs = Inr zs"
    and ys: "ys = (if b then x # zs else zs)"
    by (auto split: sum.splits)
  from zs have "set zs \<subseteq> set xs" by (rule Cons.IH)
  with ys show ?case by auto
qed

lemma transformHourlyForecast_subset:
  assumes "transformHourlyForecast data now = Inr hs"
  shows "set hs \<subseteq> hourly_of ` set (hours_of data)"
proof (cases "forecast data")
  case None
  with assms show ?thesis by (simp add: transformHourlyForecast_def)
next
  case (Some fc)
  show ?thesis
  proof (cases "forecastday fc")
    case None
    with Some assms show ?thesis by (simp add: transformHourlyForecast_def)
  next
    case ds: (Some ds)
    have flat: "collect_hours ds = map hourly_of (hours_of data)"
      using Some ds by (simp add: collect_hours_def hours_of_def days_of_def map_concat comp_def
          option.case_distrib cong: option.case_cong)
    show ?thesis
    proof (cases "ds = [] \<or> length (hours_of data) \<le> 24")
      case True
      with assms Some ds flat have "hs = [] \<or> hs = map hourly_of (hours_of data)"
        by (auto simp: transformHourlyForecast_def split: if_splits)
      then show ?thesis by auto
    next
      case False
      let ?p = "future_hour (hd (split_on 84 (toISOString now))) (getHours now)"
      from assms Some ds flat False obtain fh where
        fh: "filter_raise ?p (map hourly_of (hours_of data)) = Inr fh" and hs: "hs = take 24 fh"
        by (auto simp: transformHourlyForecast_def Let_def split: sum.splits)
      from fh have "set fh \<subseteq> set (map hourly_of (hours_of data))" by (rule filter_raise_subset)
      moreover have "set hs \<subseteq> set fh" unfolding hs by (rule set_take_subset)
      ultimately show ?thesis by auto
    qed
  qed
qed


text \<open>
  Claim C6: in the daily and in the hourly transformation the precipitation chance of an
  entry is the rain chance if it is present and truthy, otherwise the snow chance if it is
  present and truthy, otherwise 0; rain 0 with snow 80 gives 80, rain 20 with snow 0 gives
  20, and neither field gives 0.
\<close>

theorem precipitationChance_collapsing:
  "(transformDailyForecast data = Inr ds \<longrightarrow>
      map daily_entry.precipitationChance ds =
        map (\<lambda>d. Some (precipitation_rule (daily_chance_of_rain (day d))
                                             (daily_chance_of_snow (day d)))) (days_of data)) \<and>
   (transformHourlyForecast data now = Inr hs \<longrightarrow>
      (\<forall>e \<in> set hs. \<exists>h \<in> set (hours_of data). e = hourly_of h \<and>
          hourly_entry.precipitationChance e =
            Some (precipitation_rule (chance_of_rain h) (chance_of_snow h)))) \<and>
   hourly_entry.precipitationChance
     (hourly_of (h\<lparr>chance_of_rain := Some 0, chance_of_snow := Some 80\<rparr>)) = Some 80 \<and>
   hourly_entry.precipitationChance
     (hourly_of (h\<lparr>chance_of_rain := Some 20, chance_of_snow := Some 0\<rparr>)) = Some 20 \<and>
   hourly_entry.precipitationChance
     (hourly_of (h\<lparr>chance_of_rain := None, chance_of_snow := None\<rparr>)) = Some 0 \<and>
   daily_entry.precipitationChance
     (daily_of (d\<lparr>day := (day d)\<lparr>daily_chance_of_rain := Some 0, daily_chance_of_snow := Some 80\<rparr>\<rparr>))
       = Some 80 \<and>
   daily_entry.precipitationChance
     (daily_of (d\<lparr>day := (day d)\<lparr>daily_chance_of_rain := Some 20, daily_chance_of_snow := Some 0\<rparr>\<rparr>))
       = Some 20 \<and>
   daily_entry.precipitationChance
     (daily_of (d\<lparr>day := (day d)\<lparr>daily_chance_of_rain := None, daily_chance_of_snow := None\<rparr>\<rparr>))
       = Some 0"
proof -
  have daily: "transformDailyForecast data = Inr ds \<Longrightarrow>
      map daily_entry.precipitationChance ds =
        map (\<lambda>d. Some (precipitation_rule (daily_chance_of_rain (day d))
                                             (daily_chance_of_snow (day d)))) (days_of data)"
    by (auto simp: transformDailyForecast_def days_of_def daily_of_precipitation
        split: option.splits)
  have hourly: "\<forall>e \<in> set hs. \<exists>h \<in> set (hours_of data). e = hourly_of h \<and>
          hourly_entry.precipitationChance e =
            Some (precipitation_rule (chance_of_rain h) (chance_of_snow h))"
    if "transformHourlyForecast data now = Inr hs"
  proof
    fix e assume "e \<in> set hs"
    with that have "e \<in> hourly_of ` set (hours_of data)"
      using transformHourlyForecast_subset by blast
    then obtain h where "h \<in> set (hours_of data)" and "e = hourly_of h" by auto
    then show "\<exists>h \<in> set (hours_of data). e = hourly_of h \<and>
          hourly_entry.precipitationChance e =
            Some (precipitation_rule (chance_of_rain h) (chance_of_snow h))"
      using hourly_of_precipitation by blast
  qed
  have ex: "precipitation_rule (Some 0) (Some 80) = 80" "precipitation_rule (Some 20) (Some 0) = 20"
    "precipitation_rule None None = 0"
    by (simp_all add: precipitation_rule_def)
  from daily hourly ex show ?thesis
    by (simp add: hourly_of_precipitation daily_of_precipitation)
qed

subsection \<open>The length of the hourly window\<close>

lemma collect_hours_days_of:
  "forecast data = Some fc \<Longrightarrow> forecastday fc = Some ds \<Longrightarrow>
   collect_hours ds = map hourly_of (hours_of data)"
  by (simp add: collect_hours_def hours_of_def days_of_def map_concat comp_def option.case_distrib
      cong: option.case_cong)

lemma split_on_length: "sep \<in> set s \<Longrightarrow> 2 \<le> length (split_on sep s)"
proof (induction s)
  case Nil
  then show ?case by simp
next
  case (Cons c cs)
  show ?case
  proof (cases "c = sep")
    case True
    have "split_on sep cs \<noteq> []" by (cases cs) (auto split: list.splits)
    with True show ?thesis by (cases "split_on sep cs") auto
  next
    case False
    with Cons.prems have "sep \<in> set cs" by simp
    then have "2 \<le> length (split_on sep cs)" by (rule Cons.IH)
    with False show ?thesis by (cases "split_on sep cs") auto
  qed
qed

lemma future_hour_returns:
  assumes "32 \<in> set (hourly_entry.time e)"
  shows "\<exists>b. future_hour cd ch e = Inr b"
proof -
  from assms have "2 \<le> length (split_on 32 (hourly_entry.time e))" by (rule split_on_length)
  then obtain clock where "at_index (split_on 32 (hourly_entry.time e)) 1 = Some clock"
    by (simp add: at_index_def)
  then show ?thesis by (simp add: future_hour_def Let_def)
qed

lemma filter_raise_returns:
  "(\<forall>x \<in> set xs. \<exists>b. p x = Inr b) \<Longrightarrow> \<exists>ys. filter_raise p xs = Inr ys"
proof (induction xs)
  case Nil
  show ?case by simp
next
  case (Cons x xs)
  then obtain b ys where "p x = Inr b" and "filter_raise p xs = Inr ys" by auto
  then show ?case by simp
qed


text \<open>
  Claim C4: for an answer with a forecast section, the hourly transformation returns the
  flattened hours unchanged, hence of the same length, when there are at most 24 of them;
  when there are more, whatever it returns has at most 24 entries, and it does return when
  every time string has a space.
\<close>

theorem transformHourlyForecast_length:
  assumes "forecast data \<noteq> None"
  shows
    "(length (hours_of data) \<le> 24 \<longrightarrow>
        transformHourlyForecast data now = Inr (map hourly_of (hours_of data)) \<and>
        (\<exists>out. transformHourlyForecast data now = Inr out \<and> length out = length (hours_of data))) \<and>
     (length (hours_of data) > 24 \<longrightarrow>
        (\<forall>out. transformHourlyForecast data now = Inr out \<longrightarrow> length out \<le> 24) \<and>
        ((\<forall>h \<in> set (hours_of data). 32 \<in> set (raw_hour.time h)) \<longrightarrow>
           (\<exists>out. transformHourlyForecast data now = Inr out \<and> length out \<le> 24)))"
proof -
  from assms obtain fc where fc: "forecast data = Some fc" by auto
  show ?thesis
  proof (cases "forecastday fc")
    case None
    with fc have "hours_of data = []" by (simp add: hours_of_def days_of_def)
    moreover from fc None have "transformHourlyForecast data now = Inr []"
      by (simp add: transformHourlyForecast_def)
    ultimately show ?thesis by simp
  next
    case (Some ds)
    have flat: "collect_hours ds = map hourly_of (hours_of data)"
      using fc Some by (rule collect_hours_days_of)
    show ?thesis
    proof (cases "length (hours_of data) \<le> 24")
      case True
      have "transformHourlyForecast data now = Inr (map hourly_of (hours_of data))"
      proof (cases "ds = []")
        case True
        with fc Some have "hours_of data = []" by (simp add: hours_of_def days_of_def)
        with fc Some True show ?thesis by (simp add: transformHourlyForecast_def)
      next
        case False
        with fc Some True flat show ?thesis by (simp add: transformHourlyForecast_def)
      qed
      with True show ?thesis by simp
    next
      case False
      then have ne: "ds \<noteq> []" using fc Some by (auto simp: hours_of_def days_of_def)
      let ?p = "future_hour (hd (split_on 84 (toISOString now))) (getHours now)"
      have unfold: "transformHourlyForecast data now =
          (case filter_raise ?p (map hourly_of (hours_of data)) of
             Inl e \<Rightarrow> Inl e | Inr futureHours \<Rightarrow> Inr (take 24 futureHours))"
        using fc Some ne False flat by (simp add: transformHourlyForecast_def Let_def)
      have bound: "\<forall>out. transformHourlyForecast data now = Inr out \<longrightarrow> length out \<le> 24"
        unfolding unfold by (auto split: sum.splits)
      have ret: "\<exists>out. transformHourlyForecast data now = Inr out \<and> length out \<le> 24"
        if wf: "\<forall>h \<in> set (hours_of data). 32 \<in> set (raw_hour.time h)"
      proof -
        have "\<forall>e \<in> set (map hourly_of (hours_of data)). \<exists>b. ?p e = Inr b"
        proof
          fix e assume "e \<in> set (map hourly_of (hours_of data))"
          then obtain h where "h \<in> set (hours_of data)" and "e = hourly_of h" by auto
          with wf have "32 \<in> set (hourly_entry.time e)" by (simp add: hourly_of_def)
          then show "\<exists>b. ?p e = Inr b" by (rule future_hour_returns)
        qed
        then obtain ys where "filter_raise ?p (map hourly_of (hours_of data)) = Inr ys"
          using filter_raise_returns by blast
        with unfold show ?thesis by simp
      qed
      from False bound ret show ?thesis by simp
    qed
  qed
qed


subsection \<open>The window on the sample answer\<close>

lemma split_on_none: "sep \<notin> set xs \<Longrightarrow> split_on sep xs = [xs]"
  by (induction xs) auto

lemma split_on_prefix: "sep \<notin> set xs \<Longrightarrow> split_on sep (xs @ sep # ys) = xs # split_on sep ys"
  by (induction xs) auto

lemma digits10_small: "n < 10 \<Longrightarrow> digits10 n = [n]"
  by simp

lemma digits10_two: "10 \<le> n \<Longrightarrow> n < 100 \<Longrightarrow> digits10 n = [n div 10, n mod 10]"
proof -
  assume a: "10 \<le> n" and b: "n < 100"
  then have "n div 10 < 10" by simp
  then have "digits10 (n div 10) = [n div 10]" by (rule digits10_small)
  moreover from a have "digits10 n = digits10 (n div 10) @ [n mod 10]"
    by (subst digits10.simps) simp
  ultimately show ?thesis by simp
qed

lemma pad_two: "n < 100 \<Longrightarrow> pad 2 n = [48 + n div 10, 48 + n mod 10]"
proof (cases "n < 10")
  case True
  then show ?thesis by (simp add: pad_def digits10_small)
next
  case False
  assume "n < 100"
  with False have "digits10 n = [n div 10, n mod 10]" by (simp add: digits10_two)
  then show ?thesis by (simp add: pad_def)
qed

lemma parseInt_two:
  assumes "a < 10" and "b < 10"
  shows "parseInt [48 + a, 48 + b] = Some (int (a * 10 + b))"
proof -
  have ws: "\<not> is_ws (48 + a)" using assms(1) by (simp add: is_ws_def)
  have d: "radix_digit 10 (48 + a)" "radix_digit 10 (48 + b)"
    using assms by (simp_all add: radix_digit_def digit_value_def)
  have v: "the (digit_value (48 + a)) = a" "the (digit_value (48 + b)) = b"
    using assms by (simp_all add: digit_value_def)
  have p: "parse_digits 10 [48 + a, 48 + b] = Some (int (a * 10 + b))"
    by (simp add: parse_digits_def d v)
  have nx: "48 + b \<noteq> 120" "48 + b \<noteq> 88" "48 + a \<noteq> 45" "48 + a \<noteq> 43"
    using assms by simp_all
  show ?thesis by (simp add: parseInt_def ws nx p Let_def)
qed

lemma sample_time:
  assumes "n < 24" and "32 \<notin> set dt"
  shows "split_on 32 (raw_hour.time (sample_hour dt n)) = [dt, pad 2 n @ js '':00'']"
    and "parseInt (hd (split_on 58 (pad 2 n @ js '':00''))) = Some (int n)"
proof -
  from assms(1) have p: "pad 2 n = [48 + n div 10, 48 + n mod 10]" by (simp add: pad_two)
  have "32 \<notin> set (pad 2 n @ js '':00'')" using assms(1) by (simp add: p js_def)
  then have "split_on 32 (pad 2 n @ js '':00'') = [pad 2 n @ js '':00'']" by (rule split_on_none)
  moreover have "raw_hour.time (sample_hour dt n) = dt @ 32 # (pad 2 n @ js '':00'')"
    by (simp add: sample_hour_def)
  ultimately show "split_on 32 (raw_hour.time (sample_hour dt n)) = [dt, pad 2 n @ js '':00'']"
    using assms(2) by (simp add: split_on_prefix)
  have "n div 10 < 10" and "n mod 10 < 10" using assms(1) by simp_all
  then have "58 \<notin> set (pad 2 n)" by (simp add: p)
  moreover have "pad 2 n @ js '':00'' = pad 2 n @ 58 # js ''00''" by (simp add: js_def)
  ultimately have "hd (split_on 58 (pad 2 n @ js '':00'')) = pad 2 n"
    by (simp add: split_on_prefix)
  moreover have "parseInt [48 + n div 10, 48 + n mod 10] = Some (int (n div 10 * 10 + n mod 10))"
    using assms(1) by (intro parseInt_two) simp_all
  ultimately show "parseInt (hd (split_on 58 (pad 2 n @ js '':00''))) = Some (int n)"
    by (simp add: p)
qed

lemma future_hour_sample:
  assumes "n < 24" and "32 \<notin> set dt"
  shows "future_hour cd ch (hourly_of (sample_hour dt n)) =
           Inr (if dt = cd then ch \<le> int n else cd < dt)"
  using sample_time [OF assms]
  by (simp add: future_hour_def hourly_of_def at_index_def Let_def)

lemma filter_raise_filter:
  "(\<forall>x \<in> set xs. p x = Inr (q x)) \<Longrightarrow> filter_raise p xs = Inr (filter q xs)"
  by (induction xs) auto

lemma filter_raise_total:
  "(\<forall>x \<in> set xs. \<exists>b. p x = Inr b) \<Longrightarrow>
   filter_raise p xs = Inr (filter (\<lambda>x. p x = Inr True) xs)"
  by (rule filter_raise_filter) auto

lemma filter_sample_day:
  assumes "32 \<notin> set dt"
  shows "filter (\<lambda>e. future_hour cd ch e = Inr True) (map hourly_of (map (sample_hour dt) [0..<24])) =
         map hourly_of (map (sample_hour dt)
           (filter (\<lambda>n. if dt = cd then ch \<le> int n else cd < dt) [0..<24]))"
proof -
  have "filter (\<lambda>n. future_hour cd ch (hourly_of (sample_hour dt n)) = Inr True) [0..<24] =
        filter (\<lambda>n. if dt = cd then ch \<le> int n else cd < dt) [0..<24]"
    by (rule filter_cong) (simp_all add: future_hour_sample assms del: upt_rec_numeral)
  then show ?thesis by (simp add: filter_map comp_def del: upt_rec_numeral)
qed

lemma claimed_sample_day:
  assumes "32 \<notin> set dt"
  shows "filter (\<lambda>e. entry_date e > td \<or>
                    (entry_date e = td \<and> (case entry_hour e of None \<Rightarrow> False | Some n \<Rightarrow> n \<ge> ch)))
           (map hourly_of (map (sample_hour dt) [0..<24])) =
         map hourly_of (map (sample_hour dt)
           (filter (\<lambda>n. td < dt \<or> (dt = td \<and> ch \<le> int n)) [0..<24]))"
proof -
  have e: "entry_date (hourly_of (sample_hour dt n)) = dt \<and>
           entry_hour (hourly_of (sample_hour dt n)) = Some (int n)" if "n < 24" for n
    using sample_time [OF that assms]
    by (simp add: entry_date_def entry_hour_def hourly_of_def at_index_def)
  have "filter (\<lambda>n. entry_date (hourly_of (sample_hour dt n)) > td \<or>
                    (entry_date (hourly_of (sample_hour dt n)) = td \<and>
                     (case entry_hour (hourly_of (sample_hour dt n)) of None \<Rightarrow> False
                      | Some n \<Rightarrow> n \<ge> ch))) [0..<24] =
        filter (\<lambda>n. td < dt \<or> (dt = td \<and> ch \<le> int n)) [0..<24]"
    by (rule filter_cong) (simp_all add: e del: upt_rec_numeral)
  then show ?thesis by (simp add: filter_map comp_def del: upt_rec_numeral)
qed

lemma sample_hours:
  "hours_of sample_data =
     map (sample_hour (js ''2025-01-01'')) [0..<24] @
     map (sample_hour (js ''2025-01-02'')) [0..<24] @
     map (sample_hour (js ''2025-01-03'')) [0..<24]"
  by (simp add: hours_of_def days_of_def sample_data_def sample_day_def del: upt_rec_numeral map_map)

lemma sample_clock:
  "getHours sample_now = 20"
  "local_date sample_now = js ''2025-01-01''"
  "hd (split_on 84 (toISOString sample_now)) = js ''2025-01-02''"
proof -
  show "getHours sample_now = 20" by (simp add: getHours_def sample_now_def)
  show "local_date sample_now = js ''2025-01-01''" by code_simp
  have "iso_date (epoch_ms sample_now) = js ''2025-01-02''" by code_simp
  moreover have "84 \<notin> set (js ''2025-01-02'')" by (simp add: js_def)
  ultimately show "hd (split_on 84 (toISOString sample_now)) = js ''2025-01-02''"
    by (simp add: toISOString_def Let_def split_on_prefix)
qed

lemma sample_window_lists:
  "filter (\<lambda>n. (20::int) \<le> int n) [0..<24] = [20..<24]"
  "filter ((\<le>) (20::nat)) [0..<24] = [20..<24]"
  "take 20 [0..<24] = [0..<20]"
  "length [20..<24::nat] = 4"
  by code_simp+

lemma sample_dates:
  "32 \<notin> set (js ''2025-01-01'')" "32 \<notin> set (js ''2025-01-02'')" "32 \<notin> set (js ''2025-01-03'')"
  "js ''2025-01-01'' < js ''2025-01-02''" "js ''2025-01-02'' < js ''2025-01-03''"
  "js ''2025-01-01'' < js ''2025-01-03''"
  "js ''2025-01-01'' \<noteq> js ''2025-01-02''" "js ''2025-01-02'' \<noteq> js ''2025-01-03''"
  "js ''2025-01-01'' \<noteq> js ''2025-01-03''"
  "\<not> js ''2025-01-02'' < js ''2025-01-01''" "\<not> js ''2025-01-03'' < js ''2025-01-02''"
  "\<not> js ''2025-01-03'' < js ''2025-01-01''"
  "js ''2025-01-02'' \<noteq> js ''2025-01-01''" "js ''2025-01-03'' \<noteq> js ''2025-01-02''"
  "js ''2025-01-03'' \<noteq> js ''2025-01-01''"
  by (simp_all add: js_def)

lemma sample_flat:
  "forecast sample_data = Some \<lparr>forecastday = Some [sample_day (js ''2025-01-01''),
      sample_day (js ''2025-01-02''), sample_day (js ''2025-01-03'')]\<rparr>"
  "collect_hours [sample_day (js ''2025-01-01''), sample_day (js ''2025-01-02''),
      sample_day (js ''2025-01-03'')] = map hourly_of (hours_of sample_data)"
  "length (hours_of sample_data) = 72"
proof -
  show 1: "forecast sample_data = Some \<lparr>forecastday = Some [sample_day (js ''2025-01-01''),
      sample_day (js ''2025-01-02''), sample_day (js ''2025-01-03'')]\<rparr>"
    by (simp add: sample_data_def)
  show "collect_hours [sample_day (js ''2025-01-01''), sample_day (js ''2025-01-02''),
      sample_day (js ''2025-01-03'')] = map hourly_of (hours_of sample_data)"
    using 1 by (rule collect_hours_days_of) simp
  show "length (hours_of sample_data) = 72" by (simp add: sample_hours)
qed

lemma sample_transformHourlyForecast:
  "transformHourlyForecast sample_data sample_now =
     Inr (map hourly_of (map (sample_hour (js ''2025-01-02'')) [20..<24] @
                         map (sample_hour (js ''2025-01-03'')) [0..<20]))"
proof -
  let ?p = "future_hour (js ''2025-01-02'') 20"
  let ?flat = "map hourly_of (hours_of sample_data)"
  have ret: "\<forall>e \<in> set ?flat. \<exists>b. ?p e = Inr b"
    using future_hour_sample sample_dates(1-3)
    by (auto simp: sample_hours simp del: upt_rec_numeral map_map)
  then have "filter_raise ?p ?flat = Inr (filter (\<lambda>e. ?p e = Inr True) ?flat)"
    by (rule filter_raise_total)
  also have "filter (\<lambda>e. ?p e = Inr True) ?flat =
      map hourly_of (map (sample_hour (js ''2025-01-02'')) [20..<24]) @
      map hourly_of (map (sample_hour (js ''2025-01-03'')) [0..<24])"
    by (simp add: sample_hours filter_sample_day sample_dates sample_window_lists
        del: upt_rec_numeral map_map)
  finally have f: "filter_raise ?p ?flat =
      Inr (map hourly_of (map (sample_hour (js ''2025-01-02'')) [20..<24]) @
           map hourly_of (map (sample_hour (js ''2025-01-03'')) [0..<24]))" .
  show ?thesis
    by (simp add: transformHourlyForecast_def sample_flat sample_clock f Let_def take_map
        sample_window_lists del: upt_rec_numeral map_map)
qed

lemma sample_claimed_window:
  "claimed_window sample_now (map hourly_of (hours_of sample_data)) =
     map hourly_of (map (sample_hour (js ''2025-01-01'')) [20..<24] @
                    map (sample_hour (js ''2025-01-02'')) [0..<20])"
proof -
  show ?thesis
    by (simp add: claimed_window_def sample_flat sample_clock sample_hours claimed_sample_day
        sample_dates take_map sample_window_lists del: upt_rec_numeral map_map)
qed

subsection \<open>Witnesses on the sample answer\<close>

theorem transformHourlyForecast_length_witness:
  "forecast sample_data \<noteq> None \<and> length (hours_of sample_data) > 24 \<and>
   list_all (\<lambda>h. 32 \<in> set (raw_hour.time h)) (hours_of sample_data) \<and>
   (\<exists>out. transformHourlyForecast sample_data sample_now = Inr out \<and> length out \<le> 24)"
proof -
  have 1: "forecast sample_data \<noteq> None" by (simp add: sample_flat)
  have 2: "length (hours_of sample_data) > 24" by (simp add: sample_flat)
  have 3: "\<forall>h \<in> set (hours_of sample_data). 32 \<in> set (raw_hour.time h)"
    by (auto simp: sample_hours sample_hour_def simp del: upt_rec_numeral)
  from transformHourlyForecast_length [OF 1, of sample_now] 1 2 3 show ?thesis
    by (simp add: list_all_iff)
qed

lemma sample_daily_chances:
  "daily_chance_of_rain (day (sample_day dt)) = Some 0"
  "daily_chance_of_snow (day (sample_day dt)) = Some 80"
  by (simp_all add: sample_day_def del: upt_rec_numeral)

lemma sample_days:
  "days_of sample_data =
     [sample_day (js ''2025-01-01''), sample_day (js ''2025-01-02''),
      sample_day (js ''2025-01-03'')]"
  by (simp add: days_of_def sample_flat)

lemma sample_hourly_chances:
  assumes "h \<in> set (hours_of sample_data)"
  shows "precipitation_rule (chance_of_rain h) (chance_of_snow h) = 0"
  using assms
  by (auto simp: sample_hours sample_hour_def precipitation_rule_def simp del: upt_rec_numeral)

theorem precipitationChance_collapsing_witness:
  "transformDailyForecast sample_data = Inr (map daily_of (days_of sample_data)) \<and>
   map daily_entry.precipitationChance (map daily_of (days_of sample_data)) =
     [Some 80, Some 80, Some 80] \<and>
   (\<exists>hs. transformHourlyForecast sample_data sample_now = Inr hs \<and> hs \<noteq> [] \<and>
      list_all (\<lambda>e. hourly_entry.precipitationChance e = Some 0) hs)"
proof -
  define hs where
    "hs = map hourly_of (map (sample_hour (js ''2025-01-02'')) [20..<24] @
                         map (sample_hour (js ''2025-01-03'')) [0..<20])"
  have d: "transformDailyForecast sample_data = Inr (map daily_of (days_of sample_data))"
    by (simp add: transformDailyForecast_def sample_flat sample_days)
  have h: "transformHourlyForecast sample_data sample_now = Inr hs"
    unfolding hs_def by (rule sample_transformHourlyForecast)
  have v: "map (\<lambda>d. Some (precipitation_rule (daily_chance_of_rain (day d))
                                             (daily_chance_of_snow (day d)))) (days_of sample_data)
           = [Some 80, Some 80, Some 80]"
    by (simp add: sample_days sample_daily_chances precipitation_rule_def)
  have n: "hs \<noteq> []" unfolding hs_def by simp
  note T = precipitationChance_collapsing
         [of sample_data "map daily_of (days_of sample_data)" sample_now hs]
  from T [THEN conjunct1, THEN mp, OF d] v
  have c2: "map daily_entry.precipitationChance (map daily_of (days_of sample_data)) =
     [Some 80, Some 80, Some 80]" by (rule trans)
  note c3 = T [THEN conjunct2, THEN conjunct1, THEN mp, OF h]
  have "list_all (\<lambda>e. hourly_entry.precipitationChance e = Some 0) hs"
    unfolding list_all_iff
  proof
    fix e assume "e \<in> set hs"
    with c3 obtain r where "r \<in> set (hours_of sample_data)"
      and "hourly_entry.precipitationChance e =
             Some (precipitation_rule (chance_of_rain r) (chance_of_snow r))" by blast
    then show "hourly_entry.precipitationChance e = Some 0"
      by (simp add: sample_hourly_chances)
  qed
  with h n have "\<exists>hs. transformHourlyForecast sample_data sample_now = Inr hs \<and> hs \<noteq> [] \<and>
      list_all (\<lambda>e. hourly_entry.precipitationChance e = Some 0) hs"
    by (intro exI [of _ hs] conjI)
  with d c2 show ?thesis by (intro conjI)
qed

subsection \<open>The window and the caller's date\<close>

lemma split_on_not_Nil: "split_on sep s \<noteq> []"
  by (induction s) (auto split: list.splits)

lemma future_hour_claimed:
  assumes "32 \<in> set (hourly_entry.time e)"
  shows "future_hour cd ch e =
           Inr (entry_date e > cd \<or>
                (entry_date e = cd \<and> (case entry_hour e of None \<Rightarrow> False | Some n \<Rightarrow> n \<ge> ch)))"
proof -
  from assms have "2 \<le> length (split_on 32 (hourly_entry.time e))" by (rule split_on_length)
  then obtain clock where "at_index (split_on 32 (hourly_entry.time e)) 1 = Some clock"
    by (simp add: at_index_def)
  then show ?thesis
    by (auto simp: future_hour_def entry_date_def entry_hour_def Let_def)
qed

lemma transformHourlyForecast_at_most_24:
  assumes "forecast data \<noteq> None" and "length (hours_of data) \<le> 24"
  shows "transformHourlyForecast data now = Inr (map hourly_of (hours_of data))"
proof -
  from assms(1) obtain f where f: "forecast data = Some f" by auto
  show ?thesis
  proof (cases "forecastday f")
    case None
    with f show ?thesis by (simp add: transformHourlyForecast_def hours_of_def days_of_def)
  next
    case (Some ds)
    with f have "collect_hours ds = map hourly_of (hours_of data)"
      by (rule collect_hours_days_of)
    moreover from f Some have "ds = [] \<Longrightarrow> hours_of data = []"
      by (simp add: hours_of_def days_of_def)
    ultimately show ?thesis using f Some assms(2)
      by (simp add: transformHourlyForecast_def)
  qed
qed

text \<open>
  When the date of \<open>toISOString\<close> is the caller's local date, the function returns the
  window as the specification words it.
\<close>

lemma transformHourlyForecast_when_dates_agree:
  assumes fc: "forecast data \<noteq> None"
    and wf: "\<forall>h \<in> set (hours_of data). 32 \<in> set (raw_hour.time h)"
    and same: "hd (split_on 84 (toISOString now)) = local_date now"
  shows "transformHourlyForecast data now =
           Inr (claimed_window now (map hourly_of (hours_of data)))"
proof (cases "length (hours_of data) \<le> 24")
  case True
  with fc have "transformHourlyForecast data now = Inr (map hourly_of (hours_of data))"
    by (rule transformHourlyForecast_at_most_24)
  with True show ?thesis by (simp add: claimed_window_def)
next
  case False
  from fc obtain f where f: "forecast data = Some f" by auto
  from False f obtain ds where ds: "forecastday f = Some ds"
    by (cases "forecastday f") (auto simp: hours_of_def days_of_def)
  from False f ds have ne: "ds \<noteq> []"
    by (auto simp: hours_of_def days_of_def)
  have flat: "collect_hours ds = map hourly_of (hours_of data)"
    using f ds by (rule collect_hours_days_of)
  let ?flat = "map hourly_of (hours_of data)"
  let ?p = "future_hour (local_date now) (getHours now)"
  let ?q = "\<lambda>e. entry_date e > local_date now \<or>
                (entry_date e = local_date now \<and>
                 (case entry_hour e of None \<Rightarrow> False | Some n \<Rightarrow> n \<ge> getHours now))"
  have "\<forall>e \<in> set ?flat. ?p e = Inr (?q e)"
  proof
    fix e assume "e \<in> set ?flat"
    then obtain h where "h \<in> set (hours_of data)" and "e = hourly_of h" by auto
    with wf have "32 \<in> set (hourly_entry.time e)" by (simp add: hourly_of_def)
    then show "?p e = Inr (?q e)" by (rule future_hour_claimed)
  qed
  then have "filter_raise ?p ?flat = Inr (filter ?q ?flat)" by (rule filter_raise_filter)
  with False f ds ne flat same show ?thesis
    by (simp add: transformHourlyForecast_def claimed_window_def Let_def)
qed

text \<open>
  Claim C3: the claim takes today to be the calendar date of the caller's local time. The
  function reads the hour from the local time (\<open>getHours\<close>) and the date from
  \<open>toISOString\<close>, which is the date in UTC. For the sample caller, eight hours behind UTC
  at 20:00 on 2025-01-01, the local hour is 20, the local date is 2025-01-01 and the date
  the function uses is 2025-01-02. On the sample answer the function returns the 24 hours
  from 2025-01-02 20:00 on, while the window of the claim is the 24 hours from 2025-01-01
  20:00 on.
\<close>

theorem transformHourlyForecast_utc_date_window:
  "getHours sample_now = 20 \<and>
   local_date sample_now = js ''2025-01-01'' \<and>
   hd (split_on 84 (toISOString sample_now)) = js ''2025-01-02'' \<and>
   transformHourlyForecast sample_data sample_now =
     Inr (map hourly_of (map (sample_hour (js ''2025-01-02'')) [20..<24] @
                         map (sample_hour (js ''2025-01-03'')) [0..<20])) \<and>
   claimed_window sample_now (map hourly_of (hours_of sample_data)) =
     map hourly_of (map (sample_hour (js ''2025-01-01'')) [20..<24] @
                    map (sample_hour (js ''2025-01-02'')) [0..<20]) \<and>
   transformHourlyForecast sample_data sample_now \<noteq>
     Inr (claimed_window sample_now (map hourly_of (hours_of sample_data)))"
proof -
  let ?code = "map hourly_of (map (sample_hour (js ''2025-01-02'')) [20..<24] @
                         map (sample_hour (js ''2025-01-03'')) [0..<20])"
  let ?claim = "map hourly_of (map (sample_hour (js ''2025-01-01'')) [20..<24] @
                    map (sample_hour (js ''2025-01-02'')) [0..<20])"
  have "hourly_entry.time (hd ?code) = js ''2025-01-02 20:00''"
    by (simp add: hourly_of_def sample_hour_def pad_two js_def)
  moreover have "hourly_entry.time (hd ?claim) = js ''2025-01-01 20:00''"
    by (simp add: hourly_of_def sample_hour_def pad_two js_def)
  moreover have "js ''2025-01-02 20:00'' \<noteq> js ''2025-01-01 20:00''" by (simp add: js_def)
  ultimately have "?code \<noteq> ?claim" by metis
  then show ?thesis
    by (simp only: sample_clock sample_transformHourlyForecast sample_claimed_window sum.inject
        simp_thms)
qed

section \<open>Properties of the store\<close>

lemma formattedLastUpdated_compute_future:
  assumes "weather_state.lastUpdated s = Some t" and "t \<noteq> 0" and "now < t"
  shows "formattedLastUpdated_compute s now = ''Just now''"
proof -
  from assms(3) have "(now - t) div 1000 < 30" by simp
  with assms(1,2) show ?thesis by (simp add: formattedLastUpdated_compute_def Let_def)
qed

lemma formattedLastUpdated_compute_minute:
  "formattedLastUpdated_compute sample_state 1735790475000 = ''1 minute ago''"
  by (simp add: formattedLastUpdated_compute_def sample_state_def)

lemma formattedLastUpdated_first_read:
  "formattedLastUpdated sample_store 1735790700000 =
     (''5 minutes ago'', sample_store\<lparr>formattedLastUpdated_cache := Some ''5 minutes ago''\<rparr>)"
proof -
  have "show_int 5 = ''5''" by code_simp
  then have "formattedLastUpdated_compute sample_state 1735790700000 = ''5 minutes ago''"
    by (simp add: formattedLastUpdated_compute_def sample_state_def)
  then show ?thesis by (simp add: formattedLastUpdated_def sample_store_def Let_def)
qed

lemma write_state_lastUpdated:
  "weather_state.lastUpdated s \<noteq> weather_state.lastUpdated (store_state st) \<Longrightarrow>
   formattedLastUpdated_cache (write_state s st) = None"
  by (simp add: write_state_def)

text \<open>
  Claim C9, as stated, fails on a read that is served from the cache: after a read five
  minutes past \<open>lastUpdated\<close>, a second read with the clock one second before
  \<open>lastUpdated\<close> still gives the text of the first. It also fails for a \<open>lastUpdated\<close> of 0
  with a clock before the epoch, where the getter gives \<open>Never\<close>.
\<close>

theorem formattedLastUpdated_cached_counterexample:
  "weather_state.lastUpdated (store_state (snd (formattedLastUpdated sample_store 1735790700000)))
     = Some 1735790400000 \<and>
   (1735790399000 :: int) < 1735790400000 \<and>
   fst (formattedLastUpdated (snd (formattedLastUpdated sample_store 1735790700000)) 1735790399000)
     = ''5 minutes ago'' \<and>
   fst (formattedLastUpdated (snd (formattedLastUpdated sample_store 1735790700000)) 1735790399000)
     \<noteq> ''Just now'' \<and>
   (- 1 :: int) < 0 \<and>
   fst (formattedLastUpdated
          (write_state (sample_state\<lparr>weather_state.lastUpdated := Some 0\<rparr>) sample_store) (- 1))
     = ''Never''"
  by (simp add: formattedLastUpdated_first_read)
     (simp add: formattedLastUpdated_def formattedLastUpdated_compute_def write_state_def
        sample_store_def sample_state_def Let_def)

text \<open>
  Claim C9, amended: when \<open>lastUpdated\<close> is set, is not 0 and lies after the current time, a
  read that runs the getter function (the first read, or the first read after \<open>lastUpdated\<close>
  was written a different value) gives the text \<open>Just now\<close> and caches it; a read served
  from the cache gives the cached text whatever the clock.
\<close>

theorem formattedLastUpdated_future:
  "(formattedLastUpdated_cache st = None \<and> weather_state.lastUpdated (store_state st) = Some t \<and>
    t \<noteq> 0 \<and> now < t \<longrightarrow>
      formattedLastUpdated st now =
        (''Just now'', st\<lparr>formattedLastUpdated_cache := Some ''Just now''\<rparr>)) \<and>
   (formattedLastUpdated_cache st = Some txt \<longrightarrow> formattedLastUpdated st now = (txt, st))"
proof (intro conjI impI)
  assume a: "formattedLastUpdated_cache st = None \<and>
    weather_state.lastUpdated (store_state st) = Some t \<and> t \<noteq> 0 \<and> now < t"
  then have "weather_state.lastUpdated (store_state st) = Some t" and "t \<noteq> 0" and "now < t"
    by simp_all
  then have "formattedLastUpdated_compute (store_state st) now = ''Just now''"
    by (rule formattedLastUpdated_compute_future)
  with a show "formattedLastUpdated st now =
        (''Just now'', st\<lparr>formattedLastUpdated_cache := Some ''Just now''\<rparr>)"
    by (simp add: formattedLastUpdated_def Let_def)
next
  assume "formattedLastUpdated_cache st = Some txt"
  then show "formattedLastUpdated st now = (txt, st)" by (simp add: formattedLastUpdated_def)
qed

theorem formattedLastUpdated_future_witness:
  "fst (formattedLastUpdated
          (write_state (sample_state\<lparr>weather_state.lastUpdated := Some 1735790460000\<rparr>)
             sample_store) 1735790400000) = ''Just now'' \<and>
   fst (formattedLastUpdated (sample_store\<lparr>formattedLastUpdated_cache := Some ''5 minutes ago''\<rparr>)
          1735790399000) = ''5 minutes ago''"
  using formattedLastUpdated_future
    [of "write_state (sample_state\<lparr>weather_state.lastUpdated := Some 1735790460000\<rparr>)
           sample_store" 1735790460000 1735790400000 "''x''"]
    formattedLastUpdated_future
    [of "sample_store\<lparr>formattedLastUpdated_cache := Some ''5 minutes ago''\<rparr>" 0 1735790399000
        "''5 minutes ago''"]
  by (simp add: write_state_def sample_store_def sample_state_def Let_def)

text \<open>
  Claim C2: after the action \<open>fetchWeatherData\<close>, whatever the three provider calls settled
  with, \<open>isLoading\<close> is false.
\<close>

theorem store_fetchWeatherData_isLoading:
  "isLoading (fst (store_fetchWeatherData ss q c h d now)) = False"
  by (simp add: store_fetchWeatherData_def Let_def split: sum.splits prod.splits)

lemma earliest_Some: "xs \<noteq> [] \<Longrightarrow> \<exists>x. earliest xs = Some x"
  by (induction xs) (auto split: option.splits)

lemma promise_all_rejects:
  assumes "isl (snd c) \<or> isl (snd h) \<or> isl (snd d)"
  shows "\<exists>e. promise_all c h d = Inl e"
proof -
  from assms have "rejection c @ rejection h @ rejection d \<noteq> []"
    by (auto simp: rejection_def isl_def)
  then obtain x where "earliest (rejection c @ rejection h @ rejection d) = Some x"
    using earliest_Some by blast
  with assms show ?thesis
    by (cases x) (auto simp: promise_all_def isl_def split: sum.splits)
qed

lemma store_fetch_rejected:
  assumes "promise_all c h d = Inl e"
  shows "store_fetchWeatherData (s, st) q c h d now =
           (s\<lparr>error := Some (error_message e), isLoading := False\<rparr>, st)"
  using assms by (simp add: store_fetchWeatherData_def fetch_start_def)

text \<open>
  Claim C1: when one of the three provider calls fails, the action leaves \<open>currentWeather\<close>,
  \<open>hourlyForecast\<close>, \<open>dailyForecast\<close>, \<open>location\<close> and \<open>lastUpdated\<close> as they were,
  changes only \<open>error\<close> and \<open>isLoading\<close>, and leaves the storage as it was; and the
  stored last location changes only when all three calls succeeded.
\<close>

theorem store_fetchWeatherData_failure:
  fixes s :: weather_state and st :: local_storage and q :: jstring
    and c :: "current_result settled" and h :: "hourly_result settled"
    and d :: "daily_result settled" and now :: nat
  defines "r \<equiv> store_fetchWeatherData (s, st) q c h d now"
  shows
    "(isl (snd c) \<or> isl (snd h) \<or> isl (snd d) \<longrightarrow>
        currentWeather (fst r) = currentWeather s \<and>
        hourlyForecast (fst r) = hourlyForecast s \<and>
        dailyForecast (fst r) = dailyForecast s \<and>
        weather_state.location (fst r) = weather_state.location s \<and>
        weather_state.lastUpdated (fst r) = weather_state.lastUpdated s \<and>
        (\<exists>e. fst r = s\<lparr>error := Some (error_message e), isLoading := False\<rparr>) \<and>
        snd r = st) \<and>
     (items (snd r) STORAGE_KEY \<noteq> items st STORAGE_KEY \<longrightarrow>
        \<not> isl (snd c) \<and> \<not> isl (snd h) \<and> \<not> isl (snd d))"
proof -
  have fail: "isl (snd c) \<or> isl (snd h) \<or> isl (snd d) \<Longrightarrow>
      \<exists>e. r = (s\<lparr>error := Some (error_message e), isLoading := False\<rparr>, st)"
  proof -
    assume "isl (snd c) \<or> isl (snd h) \<or> isl (snd d)"
    then obtain e where "promise_all c h d = Inl e" using promise_all_rejects by blast
    then have "r = (s\<lparr>error := Some (error_message e), isLoading := False\<rparr>, st)"
      unfolding r_def by (rule store_fetch_rejected)
    then show ?thesis by blast
  qed
  show ?thesis
  proof (cases "isl (snd c) \<or> isl (snd h) \<or> isl (snd d)")
    case True
    then obtain e where e: "r = (s\<lparr>error := Some (error_message e), isLoading := False\<rparr>, st)"
      using fail by blast
    have "\<exists>e'. fst r = s\<lparr>error := Some (error_message e'), isLoading := False\<rparr>"
      using e by auto
    with e True show ?thesis by simp
  next
    case False
    then show ?thesis by simp
  qed
qed

theorem store_fetchWeatherData_failure_witness:
  "currentWeather (fst (store_fetchWeatherData (sample_state, sample_storage) (js ''Atlantis'')
      (3, Inr \<lparr>current_result.current = sample_current, current_result.location = sample_location\<rparr>)
      (2, Inr \<lparr>hourly = [], hourly_result.location = sample_location\<rparr>)
      (1, Inl (WeatherApiError ''Invalid response from weather service.'' validation None))
      1735790460000)) = Some sample_current \<and>
   snd (store_fetchWeatherData (sample_state, sample_storage) (js ''Atlantis'')
      (3, Inr \<lparr>current_result.current = sample_current, current_result.location = sample_location\<rparr>)
      (2, Inr \<lparr>hourly = [], hourly_result.location = sample_location\<rparr>)
      (1, Inl (WeatherApiError ''Invalid response from weather service.'' validation None))
      1735790460000) = sample_storage"
  using store_fetchWeatherData_failure
    [of "(3, Inr \<lparr>current_result.current = sample_current, current_result.location = sample_location\<rparr>)"
        "(2, Inr \<lparr>hourly = [], hourly_result.location = sample_location\<rparr>)"
        "(1, Inl (WeatherApiError ''Invalid response from weather service.'' validation None))"
        sample_state sample_storage "js ''Atlantis''" 1735790460000]
  by (simp add: sample_state_def)

lemma store_fetch_success:
  "store_fetchWeatherData (s, st) q (tc, Inr cv) (th, Inr hv) (td, Inr dv) now =
     (s\<lparr>currentWeather := Some (current_result.current cv), hourlyForecast := hourly hv,
        dailyForecast := daily dv, weather_state.location := Some (current_result.location cv),
        isLoading := False, error := None, weather_state.lastUpdated := Some (int now)\<rparr>,
      saveLastLocation q st)"
  by (simp add: store_fetchWeatherData_def promise_all_def fetch_start_def)

end
